theory Spec2Isabelle
  imports Main
begin

section \<open>Values shared by the research agent's graphs\<close>

text \<open>
  JavaScript values that the code only carries around (the result of \<^verbatim>\<open>JSON.parse\<close>,
  the values of \<^verbatim>\<open>searchKwargs\<close>, document metadata). Numbers are kept as integers:
  no function below computes with them.
\<close>

datatype json =
    JNull
  | JBool bool
  | JNum int
  | JStr string
  | JArr "json list"
  | JObj "(string \<times> json) list"

text \<open>\<^verbatim>\<open>Record<string, any>\<close>: an object literal, keys in insertion order; \<^verbatim>\<open>{}\<close> is \<open>[]\<close>.\<close>

type_synonym kwargs = "(string \<times> json) list"

text \<open>The document shape of the vector stores: text content plus metadata.\<close>

record document =
  pageContent :: string
  metadata :: kwargs

subsection \<open>Errors\<close>

text \<open>
  One constructor per \<^verbatim>\<open>throw new Error(...)\<close> of the sources, and \<open>External\<close> for an
  exception raised by a collaborator outside the repository (the file system, the JSON
  parser, the vector store). \<open>message\<close> is the text the source gives the error.
\<close>

datatype error =
    ConfigurationRequired
  | EnvNotDefined string
  | UnsupportedEmbeddingProvider string
  | UnrecognizedRetrieverProvider string
  | External string

fun message :: "error \<Rightarrow> string" where
  "message ConfigurationRequired = ''Configuration required to run index_docs.''"
| "message (EnvNotDefined v) = v @ '' environment variable is not defined''"
| "message (UnsupportedEmbeddingProvider p) = ''Unsupported embedding provider: '' @ p"
| "message (UnrecognizedRetrieverProvider p) =
     ''Unrecognized retrieverProvider in configuration: '' @ p"
| "message (External m) = m"

section \<open>shared/configuration.ts and retrieval-graph/configuration.ts\<close>

text \<open>
  \<^verbatim>\<open>config.configurable\<close> cast to \<^verbatim>\<open>Partial<typeof AgentConfigurationAnnotation.State>\<close>:
  every recognised option may be missing (\<open>None\<close> is \<^verbatim>\<open>undefined\<close>). The provider is a
  string at run time; the union type of the annotation is not checked by the code.
\<close>

record partial_configuration =
  embeddingModel_opt :: "string option"
  retrieverProvider_opt :: "string option"
  searchKwargs_opt :: "kwargs option"
  queryModel_opt :: "string option"
  responseModel_opt :: "string option"
  routerSystemPrompt_opt :: "string option"
  moreInfoSystemPrompt_opt :: "string option"
  generalSystemPrompt_opt :: "string option"
  researchPlanSystemPrompt_opt :: "string option"
  generateQueriesSystemPrompt_opt :: "string option"
  responseSystemPrompt_opt :: "string option"

text \<open>\<^verbatim>\<open>RunnableConfig\<close>, of which the code reads only \<^verbatim>\<open>configurable\<close>.\<close>

record runnable_config =
  configurable :: "partial_configuration option"

record base_configuration =
  embeddingModel :: string
  retrieverProvider :: string
  searchKwargs :: kwargs

record agent_configuration = base_configuration +
  queryModel :: string
  responseModel :: string
  routerSystemPrompt :: string
  moreInfoSystemPrompt :: string
  generalSystemPrompt :: string
  researchPlanSystemPrompt :: string
  generateQueriesSystemPrompt :: string
  responseSystemPrompt :: string

text \<open>
  The six constants imported from \<^verbatim>\<open>./prompts.js\<close>. Their texts play no part in the
  constructor, so they are a parameter of \<open>ensureAgentConfiguration\<close>.
\<close>

record prompts =
  ROUTER_SYSTEM_PROMPT :: string
  MORE_INFO_SYSTEM_PROMPT :: string
  GENERAL_SYSTEM_PROMPT :: string
  RESEARCH_PLAN_SYSTEM_PROMPT :: string
  GENERATE_QUERIES_SYSTEM_PROMPT :: string
  RESPONSE_SYSTEM_PROMPT :: string

text \<open>
  JavaScript's \<^verbatim>\<open>a || b\<close>. A string operand is falsy when it is \<^verbatim>\<open>undefined\<close> or
  empty; an object operand is falsy only when it is \<^verbatim>\<open>undefined\<close>.
\<close>

definition falsy :: "string option \<Rightarrow> bool" where
  "falsy v = (v = None \<or> v = Some [])"

definition or_string :: "string option \<Rightarrow> string \<Rightarrow> string" where
  "or_string v d = (case v of None \<Rightarrow> d | Some s \<Rightarrow> if s = [] then d else s)"

definition or_object :: "'a option \<Rightarrow> 'a \<Rightarrow> 'a" where
  "or_object v d = (case v of None \<Rightarrow> d | Some x \<Rightarrow> x)"

text \<open>The object literal \<^verbatim>\<open>{}\<close> read as a partial configuration.\<close>

definition empty_configurable :: partial_configuration where
  "empty_configurable =
     \<lparr> embeddingModel_opt = None, retrieverProvider_opt = None, searchKwargs_opt = None,
       queryModel_opt = None, responseModel_opt = None, routerSystemPrompt_opt = None,
       moreInfoSystemPrompt_opt = None, generalSystemPrompt_opt = None,
       researchPlanSystemPrompt_opt = None, generateQueriesSystemPrompt_opt = None,
       responseSystemPrompt_opt = None \<rparr>"

text \<open>
  \<^verbatim>\<open>const configurable = (config?.configurable || {})\<close>, the first statement of both
  constructors. The optional chaining accepts a missing \<^verbatim>\<open>config\<close>, so the argument is
  an option.
\<close>

definition configurableOf :: "runnable_config option \<Rightarrow> partial_configuration" where
  "configurableOf config =
     or_object (case config of None \<Rightarrow> None | Some c \<Rightarrow> configurable c) empty_configurable"

definition ensureBaseConfiguration :: "runnable_config option \<Rightarrow> base_configuration" where
  "ensureBaseConfiguration config =
     (let configurable = configurableOf config in
      \<lparr> embeddingModel =
          or_string (embeddingModel_opt configurable) ''gemini/gemini-embedding-001'',
        retrieverProvider = or_string (retrieverProvider_opt configurable) ''elastic-local'',
        searchKwargs = or_object (searchKwargs_opt configurable) [] \<rparr>)"

definition ensureAgentConfiguration ::
  "prompts \<Rightarrow> runnable_config option \<Rightarrow> agent_configuration" where
  "ensureAgentConfiguration P config =
     (let configurable = configurableOf config;
          baseConfig = ensureBaseConfiguration config in
      \<lparr> embeddingModel = embeddingModel baseConfig,
        retrieverProvider = retrieverProvider baseConfig,
        searchKwargs = searchKwargs baseConfig,
        queryModel = or_string (queryModel_opt configurable) ''gemini/gemini-2.5-flash'',
        responseModel = or_string (responseModel_opt configurable) ''gemini/gemini-2.5-flash'',
        routerSystemPrompt =
          or_string (routerSystemPrompt_opt configurable) (ROUTER_SYSTEM_PROMPT P),
        moreInfoSystemPrompt =
          or_string (moreInfoSystemPrompt_opt configurable) (MORE_INFO_SYSTEM_PROMPT P),
        generalSystemPrompt =
          or_string (generalSystemPrompt_opt configurable) (GENERAL_SYSTEM_PROMPT P),
        researchPlanSystemPrompt =
          or_string (researchPlanSystemPrompt_opt configurable)
            (RESEARCH_PLAN_SYSTEM_PROMPT P),
        generateQueriesSystemPrompt =
          or_string (generateQueriesSystemPrompt_opt configurable)
            (GENERATE_QUERIES_SYSTEM_PROMPT P),
        responseSystemPrompt =
          or_string (responseSystemPrompt_opt configurable) (RESPONSE_SYSTEM_PROMPT P) \<rparr>)"

section \<open>shared/retrieval.ts\<close>

subsection \<open>String primitives\<close>

text \<open>
  \<^verbatim>\<open>String.prototype.indexOf\<close> for a one-character needle: the position of the first
  occurrence, \<open>-1\<close> when there is none.
\<close>

fun indexOf :: "string \<Rightarrow> char \<Rightarrow> int" where
  "indexOf [] c = - 1"
| "indexOf (x # xs) c =
     (if x = c then 0
      else (let i = indexOf xs c in if i = - 1 then - 1 else i + 1))"

text \<open>
  \<^verbatim>\<open>String.prototype.slice\<close>: a negative index counts from the end, and both indices
  are clamped to the string.
\<close>

definition clampIndex :: "int \<Rightarrow> nat \<Rightarrow> nat" where
  "clampIndex i n = (if i < 0 then nat (max (int n + i) 0) else min (nat i) n)"

definition slice :: "string \<Rightarrow> int \<Rightarrow> int \<Rightarrow> string" where
  "slice s a b =
     (let from = clampIndex a (length s); to = clampIndex b (length s)
      in take (to - from) (drop from s))"

definition slice_from :: "string \<Rightarrow> int \<Rightarrow> string" where
  "slice_from s a = drop (clampIndex a (length s)) s"

subsection \<open>Library constructors\<close>

text \<open>
  The embedding clients and vector stores are values describing what the source
  constructs, with the arguments it gives. Their constructors are library code that
  may raise (a missing API key, a malformed address, a name the package does not
  export): \<open>library\<close> says for each construction whether it raises and with which
  message. It is a parameter of the model.
\<close>

datatype embeddings =
    GeminiEmbeddings string
  | OpenAIEmbeddings string
  | CohereEmbeddings string

datatype auth =
    BasicAuth string string
  | ApiKeyAuth string

datatype vectorStore =
    ElasticVectorSearch embeddings string auth string
  | PineconeStore embeddings string
  | MongoDBAtlasVectorSearch embeddings string string string string string string

datatype retriever = VectorStoreRetriever (vectorStore: vectorStore) (filter_arg: kwargs)

record library =
  embeddings_raise :: "embeddings \<Rightarrow> string option"
  vectorStore_raise :: "vectorStore \<Rightarrow> string option"

text \<open>\<^verbatim>\<open>new C(...)\<close>: the exception of the constructor, or the constructed value.\<close>

definition construct :: "('a \<Rightarrow> string option) \<Rightarrow> 'a \<Rightarrow> error + 'a" where
  "construct raises x = (case raises x of Some m \<Rightarrow> Inl (External m) | None \<Rightarrow> Inr x)"

text \<open>\<^verbatim>\<open>vectorStore.asRetriever({ filter })\<close> on a store whose construction may have raised.\<close>

definition asRetriever :: "error + vectorStore \<Rightarrow> kwargs \<Rightarrow> error + retriever" where
  "asRetriever store flt =
     (case store of Inl e \<Rightarrow> Inl e | Inr s \<Rightarrow> Inr (VectorStoreRetriever s flt))"

subsection \<open>Embeddings\<close>

text \<open>
  The first half of \<^verbatim>\<open>makeTextEmbeddings\<close>: the pair \<^verbatim>\<open>(provider, model)\<close> that the
  source computes into two local variables before its \<^verbatim>\<open>switch\<close>.
\<close>

definition splitModelName :: "string \<Rightarrow> string \<times> string" where
  "splitModelName modelName =
     (let index = indexOf modelName CHR ''/'' in
      if index = - 1 then (''gemini'', modelName)
      else (slice modelName 0 index, slice_from modelName (index + 1)))"

definition makeTextEmbeddings :: "library \<Rightarrow> string \<Rightarrow> error + embeddings" where
  "makeTextEmbeddings lib modelName =
     (case splitModelName modelName of
        (provider, model) \<Rightarrow>
          if provider = ''gemini''
          then construct (embeddings_raise lib) (GeminiEmbeddings model)
          else if provider = ''openai''
          then construct (embeddings_raise lib) (OpenAIEmbeddings model)
          else if provider = ''cohere''
          then construct (embeddings_raise lib) (CohereEmbeddings model)
          else Inl (UnsupportedEmbeddingProvider provider))"

subsection \<open>Retrievers\<close>

text \<open>
  \<^verbatim>\<open>process.env\<close>: a variable is a string or \<^verbatim>\<open>undefined\<close>. A variable that passed the
  falsiness test is a non-empty string, which \<open>the\<close> reads. The construction of a
  vector store stands for the client and the store built on it (for Elasticsearch
  \<^verbatim>\<open>new Client\<close> and \<^verbatim>\<open>new ElasticVectorSearch\<close>, for Pinecone \<^verbatim>\<open>new PineconeClient\<close>,
  \<^verbatim>\<open>pinecone.Index\<close> and \<^verbatim>\<open>PineconeStore.fromExistingIndex\<close>, for MongoDB
  \<^verbatim>\<open>new MongoClient\<close>, the collection and \<^verbatim>\<open>new MongoDBAtlasVectorSearch\<close>).
  \<^verbatim>\<open>configuration.searchKwargs\<close> is an object, so the operand of \<^verbatim>\<open>|| {}\<close> is \<open>Some\<close>.
\<close>

type_synonym environment = "string \<Rightarrow> string option"

definition makeElasticRetriever ::
  "library \<Rightarrow> environment \<Rightarrow> base_configuration \<Rightarrow> embeddings \<Rightarrow> error + retriever" where
  "makeElasticRetriever lib env configuration embeddingModel' =
     (let elasticUrl = env ''ELASTICSEARCH_URL'' in
      if falsy elasticUrl then Inl (EnvNotDefined ''ELASTICSEARCH_URL'')
      else if retrieverProvider configuration = ''elastic-local'' then
        (let username = env ''ELASTICSEARCH_USER'';
             password = env ''ELASTICSEARCH_PASSWORD'' in
         if falsy username \<or> falsy password
         then Inl (EnvNotDefined ''ELASTICSEARCH_USER or ELASTICSEARCH_PASSWORD'')
         else asRetriever
                (construct (vectorStore_raise lib)
                   (ElasticVectorSearch embeddingModel' (the elasticUrl)
                      (BasicAuth (the username) (the password)) ''langchain_index''))
                (or_object (Some (searchKwargs configuration)) []))
      else
        (let apiKey = env ''ELASTICSEARCH_API_KEY'' in
         if falsy apiKey then Inl (EnvNotDefined ''ELASTICSEARCH_API_KEY'')
         else asRetriever
                (construct (vectorStore_raise lib)
                   (ElasticVectorSearch embeddingModel' (the elasticUrl)
                      (ApiKeyAuth (the apiKey)) ''langchain_index''))
                (or_object (Some (searchKwargs configuration)) [])))"

definition makePineconeRetriever ::
  "library \<Rightarrow> environment \<Rightarrow> base_configuration \<Rightarrow> embeddings \<Rightarrow> error + retriever" where
  "makePineconeRetriever lib env configuration embeddingModel' =
     (let indexName = env ''PINECONE_INDEX_NAME'' in
      if falsy indexName then Inl (EnvNotDefined ''PINECONE_INDEX_NAME'')
      else asRetriever
             (construct (vectorStore_raise lib)
                (PineconeStore embeddingModel' (the indexName)))
             (or_object (Some (searchKwargs configuration)) []))"

text \<open>
  The namespace \<^verbatim>\<open>langgraph_retrieval_agent.default\<close> is a constant of the source; its
  two halves around the dot are written out.
\<close>

definition makeMongoDBRetriever ::
  "library \<Rightarrow> environment \<Rightarrow> base_configuration \<Rightarrow> embeddings \<Rightarrow> error + retriever" where
  "makeMongoDBRetriever lib env configuration embeddingModel' =
     (if falsy (env ''MONGODB_URI'') then Inl (EnvNotDefined ''MONGODB_URI'')
      else asRetriever
             (construct (vectorStore_raise lib)
                (MongoDBAtlasVectorSearch embeddingModel' (the (env ''MONGODB_URI''))
                   ''langgraph_retrieval_agent'' ''default'' ''text'' ''embedding''
                   ''vector_index''))
             (or_object (Some (searchKwargs configuration)) []))"

definition makeRetriever ::
  "library \<Rightarrow> environment \<Rightarrow> runnable_config \<Rightarrow> error + retriever" where
  "makeRetriever lib env config =
     (let configuration = ensureBaseConfiguration (Some config) in
      case makeTextEmbeddings lib (embeddingModel configuration) of
        Inl e \<Rightarrow> Inl e
      | Inr embeddingModel' \<Rightarrow>
          if retrieverProvider configuration = ''elastic''
             \<or> retrieverProvider configuration = ''elastic-local''
          then makeElasticRetriever lib env configuration embeddingModel'
          else if retrieverProvider configuration = ''pinecone''
          then makePineconeRetriever lib env configuration embeddingModel'
          else if retrieverProvider configuration = ''mongodb''
          then makeMongoDBRetriever lib env configuration embeddingModel'
          else Inl (UnrecognizedRetrieverProvider (retrieverProvider configuration)))"

section \<open>index-graph/graph.ts\<close>

text \<open>
  The collaborators of \<^verbatim>\<open>indexDocs\<close>: the libraries, the process environment, the file
  system, the JSON parser and the vector store (the last three may raise), and two
  functions imported from other modules, \<^verbatim>\<open>reduceDocs\<close> of \<^verbatim>\<open>shared/state.ts\<close> and
  \<^verbatim>\<open>ensureIndexConfiguration\<close> of \<^verbatim>\<open>index-graph/configuration.ts\<close>. They are parameters
  of the model, so every result below holds for any behaviour of theirs. Of the index
  configuration only \<^verbatim>\<open>docsFile\<close> is read.
\<close>

record index_configuration =
  docsFile :: string

record externals =
  libraries :: library
  env :: environment
  readFile :: "string \<Rightarrow> string + string"
  JSON_parse :: "string \<Rightarrow> string + json"
  reduceDocs :: "document list \<Rightarrow> json \<Rightarrow> document list"
  ensureIndexConfiguration :: "runnable_config \<Rightarrow> index_configuration"
  addDocuments :: "retriever \<Rightarrow> document list \<Rightarrow> string + unit"

text \<open>
  The state of the index graph, and the update a node returns for it: raw records to
  add, or the marker \<^verbatim>\<open>"delete"\<close>.
\<close>

record index_state =
  docs :: "document list"

datatype docs_update = Delete | NewDocs json

record index_state_update =
  docs_upd :: docs_update

text \<open>
  The calls made during a run, in the order they are made. A call is recorded when it
  is made, whether or not it then raises.
\<close>

datatype event =
    ReadFile string
  | JSON_Parse string
  | ReduceDocs "document list" json
  | MakeRetriever runnable_config
  | AddDocuments retriever "document list"

text \<open>
  Lines 36 to 42: the documents to index. \<^verbatim>\<open>await\<close> is sequencing: the statement after
  it runs once the awaited call has returned, and an exception of the call leaves the
  function.
\<close>

definition loadDocs ::
  "externals \<Rightarrow> index_configuration \<Rightarrow> index_state \<Rightarrow> event list \<times> (error + document list)"
  where
  "loadDocs ext configuration state =
     (if length (docs state) = 0 then
        (case readFile ext (docsFile configuration) of
           Inl x \<Rightarrow> ([ReadFile (docsFile configuration)], Inl (External x))
         | Inr fileContent \<Rightarrow>
             (case JSON_parse ext fileContent of
                Inl x \<Rightarrow>
                  ([ReadFile (docsFile configuration), JSON_Parse fileContent],
                   Inl (External x))
              | Inr serializedDocs \<Rightarrow>
                  ([ReadFile (docsFile configuration), JSON_Parse fileContent,
                    ReduceDocs [] serializedDocs],
                   Inr (reduceDocs ext [] serializedDocs))))
      else ([], Inr (docs state)))"

definition indexDocs ::
  "externals \<Rightarrow> index_state \<Rightarrow> runnable_config option
     \<Rightarrow> event list \<times> (error + index_state_update)" where
  "indexDocs ext state config =
     (case config of
        None \<Rightarrow> ([], Inl ConfigurationRequired)
      | Some cfg \<Rightarrow>
          (let configuration = ensureIndexConfiguration ext cfg in
           case loadDocs ext configuration state of
             (tr, Inl e) \<Rightarrow> (tr, Inl e)
           | (tr, Inr ds) \<Rightarrow>
               (case makeRetriever (libraries ext) (env ext) cfg of
                  Inl e \<Rightarrow> (tr @ [MakeRetriever cfg], Inl e)
                | Inr retriever \<Rightarrow>
                    (case addDocuments ext retriever ds of
                       Inl x \<Rightarrow>
                         (tr @ [MakeRetriever cfg, AddDocuments retriever ds],
                          Inl (External x))
                     | Inr u \<Rightarrow>
                         (tr @ [MakeRetriever cfg, AddDocuments retriever ds],
                          Inr \<lparr> docs_upd = Delete \<rparr>)))))"

subsection \<open>The graph around the node\<close>

text \<open>
  Modelled from the spec: the \<^verbatim>\<open>docs\<close> channel of the index graph's state, which
  \<^verbatim>\<open>index-graph/state.ts\<close> declares with the reducer of \<^verbatim>\<open>shared/state.ts\<close>. The spec has the
  indexer perform "a reduce/normalize step: raw heterogeneous document records are
  converted into the canonical document shape (content + metadata) before submission
  to DocumentStore", and has the batch "consumed and discarded after a successful load
  (not retained in any long-lived state)"; the docstring of \<^verbatim>\<open>indexDocs\<close> calls its result
  "an update object instructing the state graph to delete the docs field". So the
  channel folds an update into the documents it holds: raw records through
  \<^verbatim>\<open>reduceDocs\<close>, the marker \<^verbatim>\<open>"delete"\<close> to no documents.
\<close>

definition docsChannel :: "externals \<Rightarrow> document list \<Rightarrow> docs_update \<Rightarrow> document list" where
  "docsChannel ext existing update =
     (case update of Delete \<Rightarrow> [] | NewDocs raw \<Rightarrow> reduceDocs ext existing raw)"

text \<open>
  Modelled from the spec: one run of the index graph, the spec's
  "runIndexing(batch | none, runtimeConfig)". The graph is START, \<^verbatim>\<open>indexDocs\<close>, END
  (graph.ts 51 to 57). The channel starts with no documents and takes in the submitted
  batch, the node runs on that state, and the update it returns goes through the
  channel.
\<close>

definition runIndexGraph ::
  "externals \<Rightarrow> json option \<Rightarrow> runnable_config option \<Rightarrow> event list \<times> (error + index_state)"
  where
  "runIndexGraph ext batch config =
     (let received = (case batch of None \<Rightarrow> [] | Some raw \<Rightarrow> [ReduceDocs [] raw]);
          state = \<lparr> docs = (case batch of None \<Rightarrow> []
                                     | Some raw \<Rightarrow> docsChannel ext [] (NewDocs raw)) \<rparr>
      in case indexDocs ext state config of
           (tr, Inl e) \<Rightarrow> (received @ tr, Inl e)
         | (tr, Inr update) \<Rightarrow>
             (received @ tr,
              Inr \<lparr> docs = docsChannel ext (docs state) (docs_upd update) \<rparr>))"

section \<open>A concrete world\<close>

text \<open>
  Inputs for the closed instances below. The environment holds an OpenAI key and the
  address of a MongoDB server, and nothing for Elasticsearch, Pinecone or Cohere. The
  libraries behave as installed: \<^verbatim>\<open>@langchain/google-genai\<close> exports
  \<^verbatim>\<open>GoogleGenerativeAIEmbeddings\<close> and no \<^verbatim>\<open>GeminiEmbeddings\<close>, so the name imported by
  \<^verbatim>\<open>retrieval.ts\<close> is undefined and \<^verbatim>\<open>new GeminiEmbeddings\<close> raises a type error; the
  OpenAI, Cohere and Pinecone clients raise without their API key; the Elasticsearch and
  MongoDB clients raise on an address without their scheme. The file system has the
  sample file, a JSON array of one string; the reducer turns an array of strings into
  documents; the store accepts every batch.
\<close>

definition installed_library :: "environment \<Rightarrow> library" where
  "installed_library e =
     \<lparr> embeddings_raise =
         (\<lambda>x. case x of
            GeminiEmbeddings m \<Rightarrow> Some ''GeminiEmbeddings is not a constructor''
          | OpenAIEmbeddings m \<Rightarrow>
              if falsy (e ''OPENAI_API_KEY'') then Some ''OPENAI_API_KEY is missing''
              else None
          | CohereEmbeddings m \<Rightarrow>
              if falsy (e ''COHERE_API_KEY'') then Some ''COHERE_API_KEY is missing''
              else None),
       vectorStore_raise =
         (\<lambda>s. case s of
            ElasticVectorSearch em url a i \<Rightarrow>
              if take 7 url = ''http://'' \<or> take 8 url = ''https://'' then None
              else Some ''Invalid URL''
          | PineconeStore em i \<Rightarrow>
              if falsy (e ''PINECONE_API_KEY'') then Some ''PINECONE_API_KEY is missing''
              else None
          | MongoDBAtlasVectorSearch em uri d c t k i \<Rightarrow>
              if take 10 uri = ''mongodb://'' \<or> take 14 uri = ''mongodb+srv://'' then None
              else Some ''Invalid scheme'') \<rparr>"

definition demo_reduceDocs :: "document list \<Rightarrow> json \<Rightarrow> document list" where
  "demo_reduceDocs existing newDocs =
     existing @ (case newDocs of
                   JArr xs \<Rightarrow>
                     map (\<lambda>x. \<lparr> pageContent = (case x of JStr s \<Rightarrow> s | _ \<Rightarrow> []),
                               metadata = [] \<rparr>) xs
                 | _ \<Rightarrow> [])"

definition demo_env :: environment where
  "demo_env v =
     (if v = ''OPENAI_API_KEY'' then Some ''sk-demo''
      else if v = ''MONGODB_URI'' then Some ''mongodb://localhost:27017''
      else None)"

definition demo_file :: string where
  "demo_file = [CHR ''['', CHR 0x22] @ ''alpha'' @ [CHR 0x22, CHR '']'']"

definition demo_externals :: externals where
  "demo_externals =
     \<lparr> libraries = installed_library demo_env,
       env = demo_env,
       readFile = (\<lambda>path. if path = ''src/sample_docs.json'' then Inr demo_file
                           else Inl ''ENOENT''),
       JSON_parse = (\<lambda>s. if s = demo_file then Inr (JArr [JStr ''alpha''])
                          else Inl ''SyntaxError''),
       reduceDocs = demo_reduceDocs,
       ensureIndexConfiguration = (\<lambda>c. \<lparr> docsFile = ''src/sample_docs.json'' \<rparr>),
       addDocuments = (\<lambda>r ds. Inr ()) \<rparr>"

definition demo_config :: runnable_config where
  "demo_config =
     \<lparr> configurable =
         Some (empty_configurable
                 \<lparr> embeddingModel_opt := Some ''openai/text-embedding-3-small'',
                   retrieverProvider_opt := Some ''mongodb'' \<rparr>) \<rparr>"

definition demo_store :: vectorStore where
  "demo_store =
     MongoDBAtlasVectorSearch (OpenAIEmbeddings ''text-embedding-3-small'')
       ''mongodb://localhost:27017'' ''langgraph_retrieval_agent'' ''default'' ''text''
       ''embedding'' ''vector_index''"

definition demo_retriever :: retriever where
  "demo_retriever = VectorStoreRetriever demo_store []"

definition demo_doc :: document where
  "demo_doc = \<lparr> pageContent = ''beta'', metadata = [] \<rparr>"

definition demo_config_unknown :: runnable_config where
  "demo_config_unknown =
     \<lparr> configurable =
         Some (empty_configurable
                 \<lparr> embeddingModel_opt := Some ''openai/text-embedding-3-small'',
                   retrieverProvider_opt := Some ''weaviate'' \<rparr>) \<rparr>"

definition demo_config_pinecone :: runnable_config where
  "demo_config_pinecone =
     \<lparr> configurable =
         Some (empty_configurable
                 \<lparr> embeddingModel_opt := Some ''openai/text-embedding-3-small'',
                   retrieverProvider_opt := Some ''pinecone'' \<rparr>) \<rparr>"

definition demo_prompts :: prompts where
  "demo_prompts =
     \<lparr> ROUTER_SYSTEM_PROMPT = ''route'', MORE_INFO_SYSTEM_PROMPT = ''ask'',
       GENERAL_SYSTEM_PROMPT = ''chat'', RESEARCH_PLAN_SYSTEM_PROMPT = ''plan'',
       GENERATE_QUERIES_SYSTEM_PROMPT = ''queries'', RESPONSE_SYSTEM_PROMPT = ''answer'' \<rparr>"

definition demo_config_empty_strings :: runnable_config where
  "demo_config_empty_strings =
     \<lparr> configurable =
         Some (empty_configurable \<lparr> embeddingModel_opt := Some [],
                 queryModel_opt := Some [], routerSystemPrompt_opt := Some [] \<rparr>) \<rparr>"

definition demo_config_set :: runnable_config where
  "demo_config_set =
     \<lparr> configurable =
         Some (empty_configurable \<lparr> embeddingModel_opt := Some ''openai/text-embedding-3-small'',
                 retrieverProvider_opt := Some ''mongodb'',
                 searchKwargs_opt := Some [(''lang'', JStr ''en'')],
                 responseModel_opt := Some ''openai/gpt-4o'',
                 responseSystemPrompt_opt := Some ''be brief'' \<rparr>) \<rparr>"

section \<open>Properties of shared/retrieval.ts\<close>

subsection \<open>Splitting a model name\<close>

lemma indexOf_nonneg_or_absent: "indexOf s c = - 1 \<or> 0 \<le> indexOf s c"
  by (induction s) (auto simp: Let_def)

lemma indexOf_absent: "c \<notin> set s \<Longrightarrow> indexOf s c = - 1"
  by (induction s) auto

lemma indexOf_present:
  "c \<in> set s \<Longrightarrow> indexOf s c = int (length (takeWhile (\<lambda>x. x \<noteq> c) s))"
proof (induction s)
  case Nil
  then show ?case by simp
next
  case (Cons x xs)
  show ?case
  proof (cases "x = c")
    case True
    then show ?thesis by simp
  next
    case False
    with Cons.prems have "c \<in> set xs" by simp
    with Cons.IH have "indexOf xs c = int (length (takeWhile (\<lambda>x. x \<noteq> c) xs))" by simp
    with False show ?thesis by (simp add: Let_def)
  qed
qed

lemma indexOf_minus_one_iff: "indexOf s c = - 1 \<longleftrightarrow> c \<notin> set s"
  using indexOf_absent [of c s] indexOf_present [of c s] by auto

lemma slice_prefix: "slice s 0 (int (length (takeWhile P s))) = takeWhile P s"
proof -
  have "length (takeWhile P s) \<le> length s" by (rule length_takeWhile_le)
  then have "take (length (takeWhile P s)) s = takeWhile P s"
    by (metis append_eq_conv_conj takeWhile_dropWhile_id)
  then show ?thesis
    using length_takeWhile_le [of P s] by (simp add: slice_def clampIndex_def min_def)
qed

lemma slice_from_suffix:
  "c \<in> set s \<Longrightarrow>
   slice_from s (int (length (takeWhile (\<lambda>x. x \<noteq> c) s)) + 1) = tl (dropWhile (\<lambda>x. x \<noteq> c) s)"
proof -
  assume "c \<in> set s"
  let ?P = "\<lambda>x. x \<noteq> c"
  have "length (takeWhile ?P s) < length s"
    using \<open>c \<in> set s\<close> by (induction s) auto
  moreover have "drop (Suc (length (takeWhile ?P s))) s = tl (dropWhile ?P s)"
    by (metis drop_Suc dropWhile_eq_drop tl_drop)
  ultimately show ?thesis
    by (simp add: slice_from_def clampIndex_def min_def nat_add_distrib)
qed

lemma splitModelName_no_slash:
  "CHR ''/'' \<notin> set modelName \<Longrightarrow> splitModelName modelName = (''gemini'', modelName)"
  by (simp add: splitModelName_def indexOf_absent)

lemma splitModelName_slash:
  assumes "CHR ''/'' \<in> set modelName"
  shows "splitModelName modelName =
     (takeWhile (\<lambda>x. x \<noteq> CHR ''/'') modelName, tl (dropWhile (\<lambda>x. x \<noteq> CHR ''/'') modelName))"
proof -
  have i: "indexOf modelName CHR ''/'' = int (length (takeWhile (\<lambda>x. x \<noteq> CHR ''/'') modelName))"
    using assms by (rule indexOf_present)
  then have "indexOf modelName CHR ''/'' \<noteq> - 1" by linarith
  then show ?thesis
    unfolding splitModelName_def Let_def using assms
    by (simp add: i slice_prefix slice_from_suffix)
qed

lemma split_at_first:
  assumes "c \<in> set s"
  shows "s = takeWhile (\<lambda>x. x \<noteq> c) s @ c # tl (dropWhile (\<lambda>x. x \<noteq> c) s)"
    and "c \<notin> set (takeWhile (\<lambda>x. x \<noteq> c) s)"
proof -
  have "dropWhile (\<lambda>x. x \<noteq> c) s \<noteq> []" using assms by (simp add: dropWhile_eq_Nil_conv)
  moreover have "hd (dropWhile (\<lambda>x. x \<noteq> c) s) = c"
    using calculation hd_dropWhile by (metis (full_types))
  ultimately have "dropWhile (\<lambda>x. x \<noteq> c) s = c # tl (dropWhile (\<lambda>x. x \<noteq> c) s)"
    by (metis list.collapse)
  then show "s = takeWhile (\<lambda>x. x \<noteq> c) s @ c # tl (dropWhile (\<lambda>x. x \<noteq> c) s)"
    by (metis takeWhile_dropWhile_id)
  show "c \<notin> set (takeWhile (\<lambda>x. x \<noteq> c) s)"
    by (auto dest: set_takeWhileD)
qed

subsection \<open>Embeddings and retrievers\<close>

lemma construct_Inl: "construct raises x = Inl e \<Longrightarrow> \<exists>m. raises x = Some m \<and> e = External m"
  by (auto simp: construct_def split: option.splits)

lemma construct_Inr: "construct raises x = Inr y \<Longrightarrow> raises x = None \<and> y = x"
  by (auto simp: construct_def split: option.splits)

lemma construct_returns: "raises x = None \<Longrightarrow> construct raises x = Inr x"
  by (simp add: construct_def)

lemma construct_raises: "raises x = Some m \<Longrightarrow> construct raises x = Inl (External m)"
  by (simp add: construct_def)

lemma asRetriever_Inl: "asRetriever (construct raises s) flt = Inl e \<Longrightarrow> \<exists>m. e = External m"
  by (auto simp: asRetriever_def construct_def split: option.splits)

lemma asRetriever_Inr:
  "asRetriever (construct raises s) flt = Inr r \<Longrightarrow> r = VectorStoreRetriever s flt"
  by (auto simp: asRetriever_def construct_def split: option.splits)

lemma makeTextEmbeddings_Inl:
  "makeTextEmbeddings lib m = Inl e \<Longrightarrow>
   e = UnsupportedEmbeddingProvider (fst (splitModelName m)) \<or> (\<exists>x. e = External x)"
  by (auto simp: makeTextEmbeddings_def split: prod.splits if_splits dest: construct_Inl)

lemma makeTextEmbeddings_unsupported_iff:
  "makeTextEmbeddings lib m = Inl (UnsupportedEmbeddingProvider (fst (splitModelName m))) \<longleftrightarrow>
   fst (splitModelName m) \<notin> {''gemini'', ''openai'', ''cohere''}"
  by (auto simp: makeTextEmbeddings_def split: prod.splits if_splits dest: construct_Inl)

lemma makeElasticRetriever_Inl:
  "makeElasticRetriever lib environ c em = Inl e \<Longrightarrow>
   (\<exists>v. e = EnvNotDefined v) \<or> (\<exists>x. e = External x)"
  by (auto simp: makeElasticRetriever_def Let_def split: if_splits dest: asRetriever_Inl)

lemma makeElasticRetriever_Inr:
  "makeElasticRetriever lib environ c em = Inr r \<Longrightarrow>
   (\<exists>u a i. vectorStore r = ElasticVectorSearch em u a i) \<and> filter_arg r = searchKwargs c"
  by (auto simp: makeElasticRetriever_def Let_def or_object_def split: if_splits
      dest!: asRetriever_Inr)

lemma makePineconeRetriever_Inl:
  "makePineconeRetriever lib environ c em = Inl e \<Longrightarrow>
   (\<exists>v. e = EnvNotDefined v) \<or> (\<exists>x. e = External x)"
  by (auto simp: makePineconeRetriever_def Let_def split: if_splits dest: asRetriever_Inl)

lemma makePineconeRetriever_Inr:
  "makePineconeRetriever lib environ c em = Inr r \<Longrightarrow>
   (\<exists>i. vectorStore r = PineconeStore em i) \<and> filter_arg r = searchKwargs c"
  by (auto simp: makePineconeRetriever_def Let_def or_object_def split: if_splits
      dest!: asRetriever_Inr)

lemma makeMongoDBRetriever_Inl:
  "makeMongoDBRetriever lib environ c em = Inl e \<Longrightarrow>
   (\<exists>v. e = EnvNotDefined v) \<or> (\<exists>x. e = External x)"
  by (auto simp: makeMongoDBRetriever_def Let_def split: if_splits dest: asRetriever_Inl)

lemma makeMongoDBRetriever_Inr:
  "makeMongoDBRetriever lib environ c em = Inr r \<Longrightarrow>
   (\<exists>u d k t e i. vectorStore r = MongoDBAtlasVectorSearch em u d k t e i) \<and>
   filter_arg r = searchKwargs c"
  by (auto simp: makeMongoDBRetriever_def Let_def or_object_def split: if_splits
      dest!: asRetriever_Inr)

text \<open>The switch of makeRetriever, once the embeddings are built.\<close>

lemma makeRetriever_dispatch:
  assumes "makeTextEmbeddings lib (embeddingModel (ensureBaseConfiguration (Some config))) = Inr em"
  shows "makeRetriever lib environ config =
     (let configuration = ensureBaseConfiguration (Some config);
          p = retrieverProvider configuration in
      if p = ''elastic'' \<or> p = ''elastic-local''
      then makeElasticRetriever lib environ configuration em
      else if p = ''pinecone'' then makePineconeRetriever lib environ configuration em
      else if p = ''mongodb'' then makeMongoDBRetriever lib environ configuration em
      else Inl (UnrecognizedRetrieverProvider p))"
  using assms by (simp add: makeRetriever_def Let_def)

lemma makeRetriever_embeddings_fail:
  assumes "makeTextEmbeddings lib (embeddingModel (ensureBaseConfiguration (Some config))) = Inl e"
  shows "makeRetriever lib environ config = Inl e"
  using assms by (simp add: makeRetriever_def Let_def)

text \<open>
  What \<open>makeTextEmbeddings\<close> does for every model name and every behaviour of the
  libraries: the split at the first slash, the constructor it calls for each of the
  three providers, and its own error for any other provider.
\<close>

lemma makeTextEmbeddings_provider:
  fixes modelName :: string
  assumes "provider = fst (splitModelName modelName)" and "model = snd (splitModelName modelName)"
  shows "(CHR ''/'' \<notin> set modelName \<longrightarrow> provider = ''gemini'' \<and> model = modelName)
       \<and> (CHR ''/'' \<in> set modelName \<longrightarrow>
            modelName = provider @ CHR ''/'' # model \<and> CHR ''/'' \<notin> set provider)
       \<and> (provider = ''gemini'' \<longrightarrow>
            makeTextEmbeddings lib modelName
              = construct (embeddings_raise lib) (GeminiEmbeddings model))
       \<and> (provider = ''openai'' \<longrightarrow>
            makeTextEmbeddings lib modelName
              = construct (embeddings_raise lib) (OpenAIEmbeddings model))
       \<and> (provider = ''cohere'' \<longrightarrow>
            makeTextEmbeddings lib modelName
              = construct (embeddings_raise lib) (CohereEmbeddings model))
       \<and> (provider \<notin> {''gemini'', ''openai'', ''cohere''} \<longrightarrow>
            makeTextEmbeddings lib modelName = Inl (UnsupportedEmbeddingProvider provider))"
proof -
  have no_slash: "CHR ''/'' \<notin> set modelName \<longrightarrow> provider = ''gemini'' \<and> model = modelName"
    using assms by (simp add: splitModelName_no_slash)
  have slash: "CHR ''/'' \<in> set modelName \<longrightarrow>
      modelName = provider @ CHR ''/'' # model \<and> CHR ''/'' \<notin> set provider"
  proof
    assume s: "CHR ''/'' \<in> set modelName"
    then have "provider = takeWhile (\<lambda>x. x \<noteq> CHR ''/'') modelName"
      and "model = tl (dropWhile (\<lambda>x. x \<noteq> CHR ''/'') modelName)"
      using assms by (simp_all add: splitModelName_slash)
    then show "modelName = provider @ CHR ''/'' # model \<and> CHR ''/'' \<notin> set provider"
      using split_at_first [OF s] by simp
  qed
  have pm: "splitModelName modelName = (provider, model)"
    using assms by simp
  have g: "provider = ''gemini'' \<longrightarrow>
      makeTextEmbeddings lib modelName = construct (embeddings_raise lib) (GeminiEmbeddings model)"
    by (simp add: makeTextEmbeddings_def pm)
  have p: "provider = ''openai'' \<longrightarrow>
      makeTextEmbeddings lib modelName = construct (embeddings_raise lib) (OpenAIEmbeddings model)"
    by (simp add: makeTextEmbeddings_def pm)
  have c: "provider = ''cohere'' \<longrightarrow>
      makeTextEmbeddings lib modelName = construct (embeddings_raise lib) (CohereEmbeddings model)"
    by (simp add: makeTextEmbeddings_def pm)
  have bad: "provider \<notin> {''gemini'', ''openai'', ''cohere''} \<longrightarrow>
      makeTextEmbeddings lib modelName = Inl (UnsupportedEmbeddingProvider provider)"
    by (simp add: makeTextEmbeddings_def pm)
  show ?thesis
    by (intro conjI; fact no_slash slash g p c bad)
qed

lemmas demo_defs =
  demo_config_def demo_config_unknown_def demo_config_pinecone_def demo_env_def
  demo_retriever_def demo_store_def demo_externals_def demo_reduceDocs_def demo_doc_def
  demo_file_def installed_library_def

lemmas config_defs =
  ensureBaseConfiguration_def configurableOf_def empty_configurable_def or_string_def
  or_object_def

lemmas retriever_defs =
  makeRetriever_def makeTextEmbeddings_def splitModelName_def slice_def slice_from_def
  clampIndex_def makeElasticRetriever_def makePineconeRetriever_def makeMongoDBRetriever_def
  falsy_def construct_def asRetriever_def

text \<open>
  Claim C8. The claim has \<open>makeTextEmbeddings\<close> return an embeddings instance for the
  provider gemini. With the libraries as installed it raises for the default model
  name, although the provider parsed from it is gemini: the constructor it calls is a
  name that \<^verbatim>\<open>@langchain/google-genai\<close> does not export.
\<close>

theorem makeTextEmbeddings_gemini_raises:
  "fst (splitModelName ''gemini/gemini-embedding-001'') = ''gemini''
   \<and> makeTextEmbeddings (installed_library demo_env) ''gemini/gemini-embedding-001''
       = Inl (External ''GeminiEmbeddings is not a constructor'')
   \<and> makeTextEmbeddings (installed_library demo_env) ''openai/text-embedding-3-small''
       = Inr (OpenAIEmbeddings ''text-embedding-3-small'')"
  by (simp add: demo_defs retriever_defs)

lemma makeRetriever_error_kind:
  assumes "makeRetriever lib environ config = Inl e"
  shows "(\<exists>p. e = UnsupportedEmbeddingProvider p) \<or> (\<exists>v. e = EnvNotDefined v)
       \<or> (\<exists>x. e = External x)
       \<or> e = UnrecognizedRetrieverProvider (retrieverProvider (ensureBaseConfiguration (Some config)))
         \<and> retrieverProvider (ensureBaseConfiguration (Some config))
              \<notin> {''elastic'', ''elastic-local'', ''pinecone'', ''mongodb''}"
proof (cases "makeTextEmbeddings lib (embeddingModel (ensureBaseConfiguration (Some config)))")
  case (Inl x)
  then have "e = x" using assms makeRetriever_embeddings_fail [OF Inl, where environ = environ] by simp
  then show ?thesis using makeTextEmbeddings_Inl [OF Inl] by blast
next
  case (Inr em)
  show ?thesis
    using assms unfolding makeRetriever_dispatch [OF Inr] Let_def
    by (auto split: if_splits dest: makeElasticRetriever_Inl makePineconeRetriever_Inl
        makeMongoDBRetriever_Inl)
qed

text \<open>
  Claim C4. \<open>makeRetriever\<close> selects the backend from the provider \<open>p\<close> of the ensured
  configuration: the Elastic constructor for elastic and elastic-local, the Pinecone
  constructor for pinecone, the MongoDB constructor for mongodb, and every retriever it
  returns wraps the vector store of that one backend. For a provider outside the four
  enumerated values it raises an error (the unrecognized-provider error once the
  embeddings are built), and for a provider among the four that error is never raised.
\<close>

theorem makeRetriever_selects_backend:
  assumes "configuration = ensureBaseConfiguration (Some config)"
    and "p = retrieverProvider configuration"
  shows "(\<forall>em. makeTextEmbeddings lib (embeddingModel configuration) = Inr em \<longrightarrow>
            (p = ''elastic'' \<or> p = ''elastic-local'' \<longrightarrow>
               makeRetriever lib environ config = makeElasticRetriever lib environ configuration em)
          \<and> (p = ''pinecone'' \<longrightarrow>
               makeRetriever lib environ config = makePineconeRetriever lib environ configuration em)
          \<and> (p = ''mongodb'' \<longrightarrow>
               makeRetriever lib environ config = makeMongoDBRetriever lib environ configuration em)
          \<and> (p \<notin> {''elastic'', ''elastic-local'', ''pinecone'', ''mongodb''} \<longrightarrow>
               makeRetriever lib environ config = Inl (UnrecognizedRetrieverProvider p)))
       \<and> (\<forall>r. makeRetriever lib environ config = Inr r \<longrightarrow>
            (case vectorStore r of
               ElasticVectorSearch _ _ _ _ \<Rightarrow> p = ''elastic'' \<or> p = ''elastic-local''
             | PineconeStore _ _ \<Rightarrow> p = ''pinecone''
             | MongoDBAtlasVectorSearch _ _ _ _ _ _ _ \<Rightarrow> p = ''mongodb''))
       \<and> (p \<notin> {''elastic'', ''elastic-local'', ''pinecone'', ''mongodb''} \<longrightarrow>
            (\<exists>e. makeRetriever lib environ config = Inl e))
       \<and> (p \<in> {''elastic'', ''elastic-local'', ''pinecone'', ''mongodb''} \<longrightarrow>
            (\<forall>q. makeRetriever lib environ config \<noteq> Inl (UnrecognizedRetrieverProvider q)))"
proof -
  have dispatch: "\<forall>em. makeTextEmbeddings lib (embeddingModel configuration) = Inr em \<longrightarrow>
            (p = ''elastic'' \<or> p = ''elastic-local'' \<longrightarrow>
               makeRetriever lib environ config = makeElasticRetriever lib environ configuration em)
          \<and> (p = ''pinecone'' \<longrightarrow>
               makeRetriever lib environ config = makePineconeRetriever lib environ configuration em)
          \<and> (p = ''mongodb'' \<longrightarrow>
               makeRetriever lib environ config = makeMongoDBRetriever lib environ configuration em)
          \<and> (p \<notin> {''elastic'', ''elastic-local'', ''pinecone'', ''mongodb''} \<longrightarrow>
               makeRetriever lib environ config = Inl (UnrecognizedRetrieverProvider p))"
    using assms by (simp add: makeRetriever_dispatch Let_def)
  have variant: "\<forall>r. makeRetriever lib environ config = Inr r \<longrightarrow>
            (case vectorStore r of
               ElasticVectorSearch _ _ _ _ \<Rightarrow> p = ''elastic'' \<or> p = ''elastic-local''
             | PineconeStore _ _ \<Rightarrow> p = ''pinecone''
             | MongoDBAtlasVectorSearch _ _ _ _ _ _ _ \<Rightarrow> p = ''mongodb'')"
  proof (intro allI impI)
    fix r
    assume r: "makeRetriever lib environ config = Inr r"
    then obtain em where em: "makeTextEmbeddings lib (embeddingModel configuration) = Inr em"
      using assms makeRetriever_embeddings_fail [where config = config and environ = environ and lib = lib]
      by (cases "makeTextEmbeddings lib (embeddingModel configuration)") auto
    show "case vectorStore r of
               ElasticVectorSearch _ _ _ _ \<Rightarrow> p = ''elastic'' \<or> p = ''elastic-local''
             | PineconeStore _ _ \<Rightarrow> p = ''pinecone''
             | MongoDBAtlasVectorSearch _ _ _ _ _ _ _ \<Rightarrow> p = ''mongodb''"
      using r em assms unfolding makeRetriever_def Let_def
      by (auto split: if_splits dest!: makeElasticRetriever_Inr makePineconeRetriever_Inr
          makeMongoDBRetriever_Inr)
  qed
  have outside: "p \<notin> {''elastic'', ''elastic-local'', ''pinecone'', ''mongodb''} \<longrightarrow>
            (\<exists>e. makeRetriever lib environ config = Inl e)"
  proof
    assume out: "p \<notin> {''elastic'', ''elastic-local'', ''pinecone'', ''mongodb''}"
    show "\<exists>e. makeRetriever lib environ config = Inl e"
    proof (cases "makeTextEmbeddings lib (embeddingModel configuration)")
      case (Inl x)
      then show ?thesis using assms makeRetriever_embeddings_fail [where config = config and e = x and environ = environ and lib = lib] by auto
    next
      case (Inr em)
      with dispatch have "p \<notin> {''elastic'', ''elastic-local'', ''pinecone'', ''mongodb''} \<longrightarrow>
          makeRetriever lib environ config = Inl (UnrecognizedRetrieverProvider p)"
        by simp
      with out show ?thesis by simp
    qed
  qed
  have inside: "p \<in> {''elastic'', ''elastic-local'', ''pinecone'', ''mongodb''} \<longrightarrow>
            (\<forall>q. makeRetriever lib environ config \<noteq> Inl (UnrecognizedRetrieverProvider q))"
    using makeRetriever_error_kind [where environ = environ and config = config and lib = lib] assms by auto
  show ?thesis
    by (intro conjI; fact dispatch variant outside inside)
qed

theorem makeRetriever_selects_backend_witness:
  "retrieverProvider (ensureBaseConfiguration (Some demo_config)) = ''mongodb''
   \<and> makeTextEmbeddings (installed_library demo_env)
         (embeddingModel (ensureBaseConfiguration (Some demo_config)))
       = Inr (OpenAIEmbeddings ''text-embedding-3-small'')
   \<and> makeRetriever (installed_library demo_env) demo_env demo_config
       = makeMongoDBRetriever (installed_library demo_env) demo_env
           (ensureBaseConfiguration (Some demo_config))
           (OpenAIEmbeddings ''text-embedding-3-small'')
   \<and> makeRetriever (installed_library demo_env) demo_env demo_config = Inr demo_retriever
   \<and> retrieverProvider (ensureBaseConfiguration (Some demo_config_unknown)) = ''weaviate''
   \<and> makeRetriever (installed_library demo_env) demo_env demo_config_unknown
       = Inl (UnrecognizedRetrieverProvider ''weaviate'')"
  using makeRetriever_selects_backend [OF refl refl, where config = demo_config
      and environ = demo_env and lib = "installed_library demo_env"]
    makeRetriever_selects_backend [OF refl refl, where config = demo_config_unknown
      and environ = demo_env and lib = "installed_library demo_env"]
  by (simp add: demo_defs config_defs retriever_defs)

section \<open>Properties of index-graph/graph.ts\<close>

lemma loadDocs_cases:
  assumes "loadDocs ext c st = (tr, res)"
  shows "(docs st \<noteq> [] \<and> tr = [] \<and> res = Inr (docs st))
       \<or> (docs st = [] \<and> (\<exists>x. readFile ext (docsFile c) = Inl x
              \<and> tr = [ReadFile (docsFile c)] \<and> res = Inl (External x)))
       \<or> (docs st = [] \<and> (\<exists>content x. readFile ext (docsFile c) = Inr content
              \<and> JSON_parse ext content = Inl x
              \<and> tr = [ReadFile (docsFile c), JSON_Parse content] \<and> res = Inl (External x)))
       \<or> (docs st = [] \<and> (\<exists>content raw. readFile ext (docsFile c) = Inr content
              \<and> JSON_parse ext content = Inr raw
              \<and> tr = [ReadFile (docsFile c), JSON_Parse content, ReduceDocs [] raw]
              \<and> res = Inr (reduceDocs ext [] raw)))"
  using assms by (auto simp: loadDocs_def split: if_splits sum.splits)

lemma indexDocs_cases:
  assumes "indexDocs ext st (Some cfg) = (tr, res)"
  shows "\<exists>tr0 res0. loadDocs ext (ensureIndexConfiguration ext cfg) st = (tr0, res0)
       \<and> ((\<exists>e. res0 = Inl e \<and> tr = tr0 \<and> res = Inl e)
          \<or> (\<exists>ds e. res0 = Inr ds \<and> makeRetriever (libraries ext) (env ext) cfg = Inl e
                \<and> tr = tr0 @ [MakeRetriever cfg] \<and> res = Inl e)
          \<or> (\<exists>ds r x. res0 = Inr ds \<and> makeRetriever (libraries ext) (env ext) cfg = Inr r
                \<and> addDocuments ext r ds = Inl x
                \<and> tr = tr0 @ [MakeRetriever cfg, AddDocuments r ds] \<and> res = Inl (External x))
          \<or> (\<exists>ds r. res0 = Inr ds \<and> makeRetriever (libraries ext) (env ext) cfg = Inr r
                \<and> addDocuments ext r ds = Inr ()
                \<and> tr = tr0 @ [MakeRetriever cfg, AddDocuments r ds]
                \<and> res = Inr \<lparr> docs_upd = Delete \<rparr>))"
  using assms by (auto simp: indexDocs_def Let_def split: prod.splits sum.splits)

lemma loadDocs_no_store_event:
  "loadDocs ext c st = (tr, res) \<Longrightarrow> AddDocuments r ds \<notin> set tr"
  by (auto dest!: loadDocs_cases)

lemma indexDocs_retriever_fails:
  assumes "makeRetriever (libraries ext) (env ext) cfg = Inl e"
  shows "\<exists>tr e'. indexDocs ext st (Some cfg) = (tr, Inl e') \<and> (\<forall>r ds. AddDocuments r ds \<notin> set tr)"
proof -
  obtain tr res where ir: "indexDocs ext st (Some cfg) = (tr, res)" by (cases "indexDocs ext st (Some cfg)")
  from indexDocs_cases [OF ir] assms obtain tr0 res0 where
    l: "loadDocs ext (ensureIndexConfiguration ext cfg) st = (tr0, res0)"
    and c: "(\<exists>e. res0 = Inl e \<and> tr = tr0 \<and> res = Inl e)
          \<or> (\<exists>ds e. res0 = Inr ds \<and> tr = tr0 @ [MakeRetriever cfg] \<and> res = Inl e)"
    by auto
  have "\<forall>r ds. AddDocuments r ds \<notin> set tr0" using loadDocs_no_store_event [OF l] by simp
  with c ir show ?thesis by auto
qed

text \<open>
  Claim C2. When a credential variable required by the selected provider is absent from
  the environment (the Elasticsearch URL for both elastic providers, user or password
  for elastic-local, the API key for elastic, the index name for pinecone, the URI for
  mongodb), \<open>makeRetriever\<close> fails with an error and produces no retriever, and an
  \<open>indexDocs\<close> run in that environment fails without any call to the store:
  \<open>AddDocuments\<close> is the only store operation of these sources.
\<close>

theorem missing_credential_fails:
  assumes "p = retrieverProvider (ensureBaseConfiguration (Some config))"
    and "environ = env ext"
    and "(p = ''elastic'' \<or> p = ''elastic-local'') \<and> environ ''ELASTICSEARCH_URL'' = None
       \<or> p = ''elastic-local'' \<and> (environ ''ELASTICSEARCH_USER'' = None
                                  \<or> environ ''ELASTICSEARCH_PASSWORD'' = None)
       \<or> p = ''elastic'' \<and> environ ''ELASTICSEARCH_API_KEY'' = None
       \<or> p = ''pinecone'' \<and> environ ''PINECONE_INDEX_NAME'' = None
       \<or> p = ''mongodb'' \<and> environ ''MONGODB_URI'' = None"
  shows "(\<exists>e. makeRetriever lib environ config = Inl e)
       \<and> (\<forall>r. makeRetriever lib environ config \<noteq> Inr r)
       \<and> (\<exists>tr e. indexDocs ext state (Some config) = (tr, Inl e)
             \<and> (\<forall>r ds. AddDocuments r ds \<notin> set tr))"
proof -
  let ?C = "ensureBaseConfiguration (Some config)"
  have p_eq: "retrieverProvider ?C = p" using assms(1) by simp
  have fails_any: "\<exists>e. makeRetriever l environ config = Inl e" for l
  proof (cases "makeTextEmbeddings l (embeddingModel ?C)")
    case (Inl x)
    then show ?thesis using makeRetriever_embeddings_fail [where config = config and e = x and environ = environ and lib = l] by simp
  next
    case (Inr em)
    have disp: "makeRetriever l environ config =
       (if p = ''elastic'' \<or> p = ''elastic-local'' then makeElasticRetriever l environ ?C em
        else if p = ''pinecone'' then makePineconeRetriever l environ ?C em
        else if p = ''mongodb'' then makeMongoDBRetriever l environ ?C em
        else Inl (UnrecognizedRetrieverProvider p))"
      using makeRetriever_dispatch [OF Inr, where environ = environ] p_eq by (simp add: Let_def)
    have url: "(p = ''elastic'' \<or> p = ''elastic-local'') \<and> environ ''ELASTICSEARCH_URL'' = None
        \<Longrightarrow> \<exists>e. makeRetriever l environ config = Inl e"
    proof -
      assume h: "(p = ''elastic'' \<or> p = ''elastic-local'') \<and> environ ''ELASTICSEARCH_URL'' = None"
      then have "makeRetriever l environ config = makeElasticRetriever l environ ?C em"
        using disp by simp
      moreover have "makeElasticRetriever l environ ?C em = Inl (EnvNotDefined ''ELASTICSEARCH_URL'')"
        using h by (simp add: makeElasticRetriever_def falsy_def)
      ultimately show ?thesis by simp
    qed
    have basic: "p = ''elastic-local'' \<and> (environ ''ELASTICSEARCH_USER'' = None
                                  \<or> environ ''ELASTICSEARCH_PASSWORD'' = None)
        \<Longrightarrow> \<exists>e. makeRetriever l environ config = Inl e"
    proof -
      assume h: "p = ''elastic-local'' \<and> (environ ''ELASTICSEARCH_USER'' = None
                                  \<or> environ ''ELASTICSEARCH_PASSWORD'' = None)"
      then have "makeRetriever l environ config = makeElasticRetriever l environ ?C em"
        using disp by simp
      moreover have "falsy (environ ''ELASTICSEARCH_USER'') \<or> falsy (environ ''ELASTICSEARCH_PASSWORD'')"
        using h by (auto simp: falsy_def)
      then have "\<exists>e. makeElasticRetriever l environ ?C em = Inl e"
        using h p_eq by (simp add: makeElasticRetriever_def Let_def)
      ultimately show ?thesis by simp
    qed
    have key: "p = ''elastic'' \<and> environ ''ELASTICSEARCH_API_KEY'' = None
        \<Longrightarrow> \<exists>e. makeRetriever l environ config = Inl e"
    proof -
      assume h: "p = ''elastic'' \<and> environ ''ELASTICSEARCH_API_KEY'' = None"
      then have "makeRetriever l environ config = makeElasticRetriever l environ ?C em"
        using disp by simp
      moreover have "falsy (environ ''ELASTICSEARCH_API_KEY'')" using h by (simp add: falsy_def)
      then have "\<exists>e. makeElasticRetriever l environ ?C em = Inl e"
        using h p_eq by (simp add: makeElasticRetriever_def Let_def)
      ultimately show ?thesis by simp
    qed
    have pine: "p = ''pinecone'' \<and> environ ''PINECONE_INDEX_NAME'' = None
        \<Longrightarrow> \<exists>e. makeRetriever l environ config = Inl e"
    proof -
      assume h: "p = ''pinecone'' \<and> environ ''PINECONE_INDEX_NAME'' = None"
      then have "makeRetriever l environ config = makePineconeRetriever l environ ?C em"
        using disp by simp
      moreover have "makePineconeRetriever l environ ?C em = Inl (EnvNotDefined ''PINECONE_INDEX_NAME'')"
        using h by (simp add: makePineconeRetriever_def falsy_def)
      ultimately show ?thesis by simp
    qed
    have mongo: "p = ''mongodb'' \<and> environ ''MONGODB_URI'' = None
        \<Longrightarrow> \<exists>e. makeRetriever l environ config = Inl e"
    proof -
      assume h: "p = ''mongodb'' \<and> environ ''MONGODB_URI'' = None"
      then have "makeRetriever l environ config = makeMongoDBRetriever l environ ?C em"
        using disp by simp
      moreover have "makeMongoDBRetriever l environ ?C em = Inl (EnvNotDefined ''MONGODB_URI'')"
        using h by (simp add: makeMongoDBRetriever_def falsy_def)
      ultimately show ?thesis by simp
    qed
    from assms(3) show ?thesis
      by (elim disjE) (erule url basic key pine mongo)+
  qed
  from fails_any [of lib] have fails: "\<exists>e. makeRetriever lib environ config = Inl e" .
  then have none: "\<forall>r. makeRetriever lib environ config \<noteq> Inr r" by auto
  from fails_any [of "libraries ext"] obtain e
    where "makeRetriever (libraries ext) (env ext) config = Inl e"
    using assms(2) by auto
  from indexDocs_retriever_fails [OF this]
  have "\<exists>tr e. indexDocs ext state (Some config) = (tr, Inl e)
             \<and> (\<forall>r ds. AddDocuments r ds \<notin> set tr)" .
  with fails none show ?thesis by (intro conjI)
qed

theorem missing_credential_fails_witness:
  "retrieverProvider (ensureBaseConfiguration (Some demo_config_pinecone)) = ''pinecone''
   \<and> env demo_externals ''PINECONE_INDEX_NAME'' = None
   \<and> makeRetriever (libraries demo_externals) (env demo_externals) demo_config_pinecone
       = Inl (EnvNotDefined ''PINECONE_INDEX_NAME'')
   \<and> indexDocs demo_externals \<lparr> docs = [demo_doc] \<rparr> (Some demo_config_pinecone)
       = ([MakeRetriever demo_config_pinecone], Inl (EnvNotDefined ''PINECONE_INDEX_NAME''))"
  using missing_credential_fails [OF refl refl, where config = demo_config_pinecone
      and ext = demo_externals and state = "\<lparr> docs = [demo_doc] \<rparr>"
      and lib = "libraries demo_externals"]
  by (simp add: demo_defs config_defs retriever_defs indexDocs_def loadDocs_def)

lemmas index_defs = indexDocs_def loadDocs_def

text \<open>
  Claim C10. Called without a configuration, \<open>indexDocs\<close> raises the error whose message
  is "Configuration required to run index_docs." and has made no call by then: the
  trace is empty, so no file was read, no retriever built and no document added.
\<close>

theorem indexDocs_requires_configuration:
  "indexDocs ext state None = ([], Inl ConfigurationRequired)
   \<and> message ConfigurationRequired = ''Configuration required to run index_docs.''"
  by (simp add: indexDocs_def)

lemma indexDocs_success:
  assumes "indexDocs ext state config = (tr, Inr u)"
  shows "\<exists>cfg tr0 ds r. config = Some cfg
       \<and> loadDocs ext (ensureIndexConfiguration ext cfg) state = (tr0, Inr ds)
       \<and> makeRetriever (libraries ext) (env ext) cfg = Inr r
       \<and> addDocuments ext r ds = Inr ()
       \<and> tr = tr0 @ [MakeRetriever cfg, AddDocuments r ds]
       \<and> u = \<lparr> docs_upd = Delete \<rparr>"
proof (cases config)
  case None
  then show ?thesis using assms by (simp add: indexDocs_def)
next
  case (Some cfg)
  with assms have "indexDocs ext state (Some cfg) = (tr, Inr u)" by simp
  from indexDocs_cases [OF this] Some show ?thesis by auto
qed

text \<open>
  Claim C7. Every successful run of \<open>indexDocs\<close> returns exactly the update
  \<^verbatim>\<open>{ docs: "delete" }\<close>, and the \<^verbatim>\<open>docs\<close> channel turns that update into a state without
  documents, whatever batch the state held: after a successful run of the graph the
  submitted batch is not retained.
\<close>

theorem indexDocs_clears_batch:
  "(indexDocs ext state config = (tr, Inr update) \<longrightarrow>
      update = \<lparr> docs_upd = Delete \<rparr>
    \<and> docsChannel ext (docs state) (docs_upd update) = [])
   \<and> (runIndexGraph ext batch config = (tr', Inr final) \<longrightarrow> docs final = [])"
proof (intro conjI impI)
  assume "indexDocs ext state config = (tr, Inr update)"
  then show "update = \<lparr> docs_upd = Delete \<rparr>"
    by (auto dest: indexDocs_success)
  then show "docsChannel ext (docs state) (docs_upd update) = []"
    by (simp add: docsChannel_def)
next
  assume run: "runIndexGraph ext batch config = (tr', Inr final)"
  let ?state = "\<lparr> docs = (case batch of None \<Rightarrow> []
                              | Some raw \<Rightarrow> docsChannel ext [] (NewDocs raw)) \<rparr>"
  obtain trn resn where node: "indexDocs ext ?state config = (trn, resn)"
    by (cases "indexDocs ext ?state config")
  from run node obtain update where "resn = Inr update"
    and final: "final = \<lparr> docs = docsChannel ext (docs ?state) (docs_upd update) \<rparr>"
    by (cases resn) (auto simp: runIndexGraph_def Let_def)
  with node have "update = \<lparr> docs_upd = Delete \<rparr>"
    by (auto dest: indexDocs_success)
  with final show "docs final = []"
    by (simp add: docsChannel_def)
qed

theorem indexDocs_clears_batch_witness:
  "indexDocs demo_externals \<lparr> docs = [demo_doc] \<rparr> (Some demo_config)
     = ([MakeRetriever demo_config, AddDocuments demo_retriever [demo_doc]],
        Inr \<lparr> docs_upd = Delete \<rparr>)
   \<and> docsChannel demo_externals [demo_doc] Delete = []
   \<and> runIndexGraph demo_externals (Some (JArr [JStr ''beta''])) (Some demo_config)
     = ([ReduceDocs [] (JArr [JStr ''beta'']), MakeRetriever demo_config,
         AddDocuments demo_retriever [demo_doc]],
        Inr \<lparr> docs = [] \<rparr>)"
proof -
  have node: "indexDocs demo_externals \<lparr> docs = [demo_doc] \<rparr> (Some demo_config)
     = ([MakeRetriever demo_config, AddDocuments demo_retriever [demo_doc]],
        Inr \<lparr> docs_upd = Delete \<rparr>)"
    by (simp add: demo_defs config_defs retriever_defs index_defs)
  have graph: "runIndexGraph demo_externals (Some (JArr [JStr ''beta''])) (Some demo_config)
     = ([ReduceDocs [] (JArr [JStr ''beta'']), MakeRetriever demo_config,
         AddDocuments demo_retriever [demo_doc]],
        Inr (projr (snd (runIndexGraph demo_externals (Some (JArr [JStr ''beta'']))
                           (Some demo_config)))))"
    by (simp add: runIndexGraph_def docsChannel_def demo_defs config_defs retriever_defs
        index_defs)
  note inst = indexDocs_clears_batch [where ext = demo_externals
      and state = "\<lparr> docs = [demo_doc] \<rparr>" and config = "Some demo_config"
      and batch = "Some (JArr [JStr ''beta''])"]
  from inst [THEN conjunct1, THEN mp, OF node]
  have "docsChannel demo_externals [demo_doc] Delete = []" by simp
  moreover from inst [THEN conjunct2, THEN mp, OF graph]
  have "docs (projr (snd (runIndexGraph demo_externals (Some (JArr [JStr ''beta'']))
                           (Some demo_config)))) = []" .
  ultimately have "docsChannel demo_externals [demo_doc] Delete = []"
    and "projr (snd (runIndexGraph demo_externals (Some (JArr [JStr ''beta'']))
                           (Some demo_config))) = \<lparr> docs = [] \<rparr>"
    by simp_all
  with node graph show ?thesis by simp
qed

text \<open>
  Claim C6. \<open>indexDocs\<close> returns only after the store has acknowledged the whole batch:
  in every run that returns, the last call of the trace is \<open>addDocuments\<close> on the
  retriever that was built, with all the documents that were loaded, and that call
  returned without an exception.
\<close>

theorem indexDocs_awaits_store:
  assumes "indexDocs ext state config = (tr, Inr u)"
  shows "\<exists>cfg tr0 ds r. config = Some cfg
       \<and> loadDocs ext (ensureIndexConfiguration ext cfg) state = (tr0, Inr ds)
       \<and> makeRetriever (libraries ext) (env ext) cfg = Inr r
       \<and> tr = tr0 @ [MakeRetriever cfg, AddDocuments r ds]
       \<and> last tr = AddDocuments r ds
       \<and> addDocuments ext r ds = Inr ()"
  using indexDocs_success [OF assms] by auto

theorem indexDocs_awaits_store_witness:
  "indexDocs demo_externals \<lparr> docs = [] \<rparr> (Some demo_config)
     = ([ReadFile ''src/sample_docs.json'', JSON_Parse demo_file,
         ReduceDocs [] (JArr [JStr ''alpha'']), MakeRetriever demo_config,
         AddDocuments demo_retriever [\<lparr> pageContent = ''alpha'', metadata = [] \<rparr>]],
        Inr \<lparr> docs_upd = Delete \<rparr>)
   \<and> addDocuments demo_externals demo_retriever [\<lparr> pageContent = ''alpha'', metadata = [] \<rparr>]
       = Inr ()"
proof -
  have run: "indexDocs demo_externals \<lparr> docs = [] \<rparr> (Some demo_config)
     = ([ReadFile ''src/sample_docs.json'', JSON_Parse demo_file,
         ReduceDocs [] (JArr [JStr ''alpha'']), MakeRetriever demo_config,
         AddDocuments demo_retriever [\<lparr> pageContent = ''alpha'', metadata = [] \<rparr>]],
        Inr \<lparr> docs_upd = Delete \<rparr>)"
    by (simp add: demo_defs config_defs retriever_defs index_defs)
  from indexDocs_awaits_store [OF run] run show ?thesis by auto
qed

lemma indexDocs_batch:
  assumes "docs state \<noteq> []" and "indexDocs ext state (Some cfg) = (tr, res)"
  shows "(\<exists>e. makeRetriever (libraries ext) (env ext) cfg = Inl e \<and> tr = [MakeRetriever cfg] \<and> res = Inl e)
       \<or> (\<exists>r. makeRetriever (libraries ext) (env ext) cfg = Inr r
             \<and> tr = [MakeRetriever cfg, AddDocuments r (docs state)]
             \<and> (res = Inr \<lparr> docs_upd = Delete \<rparr> \<and> addDocuments ext r (docs state) = Inr ()
                \<or> (\<exists>x. res = Inl (External x) \<and> addDocuments ext r (docs state) = Inl x)))"
proof -
  have l: "loadDocs ext (ensureIndexConfiguration ext cfg) state = ([], Inr (docs state))"
    using assms(1) by (simp add: loadDocs_def)
  from indexDocs_cases [OF assms(2)] show ?thesis unfolding l by auto
qed

lemma indexDocs_fallback_trace:
  assumes "docs state = []" and "indexDocs ext state (Some cfg) = (tr, res)"
    and "f = docsFile (ensureIndexConfiguration ext cfg)"
  shows "(\<exists>x. readFile ext f = Inl x \<and> tr = [ReadFile f] \<and> res = Inl (External x))
       \<or> (\<exists>content x. readFile ext f = Inr content \<and> JSON_parse ext content = Inl x
             \<and> tr = [ReadFile f, JSON_Parse content] \<and> res = Inl (External x))
       \<or> (\<exists>content raw. readFile ext f = Inr content \<and> JSON_parse ext content = Inr raw
             \<and> ((\<exists>e. makeRetriever (libraries ext) (env ext) cfg = Inl e
                    \<and> tr = [ReadFile f, JSON_Parse content, ReduceDocs [] raw, MakeRetriever cfg]
                    \<and> res = Inl e)
                \<or> (\<exists>r. makeRetriever (libraries ext) (env ext) cfg = Inr r
                    \<and> tr = [ReadFile f, JSON_Parse content, ReduceDocs [] raw, MakeRetriever cfg,
                             AddDocuments r (reduceDocs ext [] raw)]
                    \<and> (res = Inr \<lparr> docs_upd = Delete \<rparr>
                          \<and> addDocuments ext r (reduceDocs ext [] raw) = Inr ()
                       \<or> (\<exists>x. res = Inl (External x)
                             \<and> addDocuments ext r (reduceDocs ext [] raw) = Inl x)))))"
proof -
  from indexDocs_cases [OF assms(2)] obtain tr0 res0 where
    l: "loadDocs ext (ensureIndexConfiguration ext cfg) state = (tr0, res0)"
    and c: "(\<exists>e. res0 = Inl e \<and> tr = tr0 \<and> res = Inl e)
          \<or> (\<exists>ds e. res0 = Inr ds \<and> makeRetriever (libraries ext) (env ext) cfg = Inl e
                \<and> tr = tr0 @ [MakeRetriever cfg] \<and> res = Inl e)
          \<or> (\<exists>ds r x. res0 = Inr ds \<and> makeRetriever (libraries ext) (env ext) cfg = Inr r
                \<and> addDocuments ext r ds = Inl x
                \<and> tr = tr0 @ [MakeRetriever cfg, AddDocuments r ds] \<and> res = Inl (External x))
          \<or> (\<exists>ds r. res0 = Inr ds \<and> makeRetriever (libraries ext) (env ext) cfg = Inr r
                \<and> addDocuments ext r ds = Inr ()
                \<and> tr = tr0 @ [MakeRetriever cfg, AddDocuments r ds]
                \<and> res = Inr \<lparr> docs_upd = Delete \<rparr>)"
    by blast
  from loadDocs_cases [OF l] assms(1,3) have
    "(\<exists>x. readFile ext f = Inl x \<and> tr0 = [ReadFile f] \<and> res0 = Inl (External x))
       \<or> (\<exists>content x. readFile ext f = Inr content \<and> JSON_parse ext content = Inl x
              \<and> tr0 = [ReadFile f, JSON_Parse content] \<and> res0 = Inl (External x))
       \<or> (\<exists>content raw. readFile ext f = Inr content \<and> JSON_parse ext content = Inr raw
              \<and> tr0 = [ReadFile f, JSON_Parse content, ReduceDocs [] raw]
              \<and> res0 = Inr (reduceDocs ext [] raw))"
    by simp
  with c show ?thesis by (elim disjE exE conjE) auto
qed

text \<open>
  Claim C1. With an empty batch \<open>indexDocs\<close> first reads the configured \<^verbatim>\<open>docsFile\<close>, and
  when the file loads, parses and the store accepts the batch, the run succeeds with
  the documents reduced from the file: an empty batch is no failure. With a non-empty
  batch no file is read at all, every \<open>addDocuments\<close> call carries exactly the submitted
  documents, and once the retriever is built that call is made.
\<close>

theorem indexDocs_fallback:
  assumes "indexDocs ext state (Some cfg) = (tr, res)"
    and "f = docsFile (ensureIndexConfiguration ext cfg)"
  shows "(docs state = [] \<longrightarrow>
            (\<exists>rest. tr = ReadFile f # rest)
          \<and> (\<forall>content raw r.
                readFile ext f = Inr content \<and> JSON_parse ext content = Inr raw
                \<and> makeRetriever (libraries ext) (env ext) cfg = Inr r
                \<and> addDocuments ext r (reduceDocs ext [] raw) = Inr ()
                \<longrightarrow> tr = [ReadFile f, JSON_Parse content, ReduceDocs [] raw, MakeRetriever cfg,
                          AddDocuments r (reduceDocs ext [] raw)]
                    \<and> res = Inr \<lparr> docs_upd = Delete \<rparr>))
       \<and> (docs state \<noteq> [] \<longrightarrow>
            (\<forall>path. ReadFile path \<notin> set tr)
          \<and> (\<forall>r ds. AddDocuments r ds \<in> set tr \<longrightarrow> ds = docs state)
          \<and> (\<forall>r. makeRetriever (libraries ext) (env ext) cfg = Inr r \<longrightarrow>
                tr = [MakeRetriever cfg, AddDocuments r (docs state)])
          \<and> (\<forall>u. res = Inr u \<longrightarrow>
                (\<exists>r. tr = [MakeRetriever cfg, AddDocuments r (docs state)])))"
proof (intro conjI impI)
  assume e: "docs state = []"
  note t = indexDocs_fallback_trace [OF e assms(1) assms(2)]
  from t show "\<exists>rest. tr = ReadFile f # rest" by auto
  from t show "\<forall>content raw r.
                readFile ext f = Inr content \<and> JSON_parse ext content = Inr raw
                \<and> makeRetriever (libraries ext) (env ext) cfg = Inr r
                \<and> addDocuments ext r (reduceDocs ext [] raw) = Inr ()
                \<longrightarrow> tr = [ReadFile f, JSON_Parse content, ReduceDocs [] raw, MakeRetriever cfg,
                          AddDocuments r (reduceDocs ext [] raw)]
                    \<and> res = Inr \<lparr> docs_upd = Delete \<rparr>"
    by auto
next
  assume n: "docs state \<noteq> []"
  note t = indexDocs_batch [OF n assms(1)]
  from t show "\<forall>path. ReadFile path \<notin> set tr" by auto
  from t show "\<forall>r ds. AddDocuments r ds \<in> set tr \<longrightarrow> ds = docs state" by auto
  from t show "\<forall>r. makeRetriever (libraries ext) (env ext) cfg = Inr r \<longrightarrow>
                tr = [MakeRetriever cfg, AddDocuments r (docs state)]" by auto
  from t show "\<forall>u. res = Inr u \<longrightarrow>
                (\<exists>r. tr = [MakeRetriever cfg, AddDocuments r (docs state)])" by auto
qed

theorem indexDocs_fallback_witness:
  "docs \<lparr> docs = [] \<rparr> = []
   \<and> docsFile (ensureIndexConfiguration demo_externals demo_config) = ''src/sample_docs.json''
   \<and> readFile demo_externals ''src/sample_docs.json'' = Inr demo_file
   \<and> JSON_parse demo_externals demo_file = Inr (JArr [JStr ''alpha''])
   \<and> makeRetriever (libraries demo_externals) (env demo_externals) demo_config = Inr demo_retriever
   \<and> fst (indexDocs demo_externals \<lparr> docs = [] \<rparr> (Some demo_config))
       = [ReadFile ''src/sample_docs.json'', JSON_Parse demo_file,
          ReduceDocs [] (JArr [JStr ''alpha'']), MakeRetriever demo_config,
          AddDocuments demo_retriever
            (reduceDocs demo_externals [] (JArr [JStr ''alpha'']))]
   \<and> docs \<lparr> docs = [demo_doc, demo_doc] \<rparr> \<noteq> []
   \<and> fst (indexDocs demo_externals \<lparr> docs = [demo_doc, demo_doc] \<rparr> (Some demo_config))
       = [MakeRetriever demo_config, AddDocuments demo_retriever [demo_doc, demo_doc]]"
proof -
  have r: "makeRetriever (libraries demo_externals) (env demo_externals) demo_config = Inr demo_retriever"
    by (simp add: demo_defs config_defs retriever_defs)
  have a: "docsFile (ensureIndexConfiguration demo_externals demo_config) = ''src/sample_docs.json''"
    "readFile demo_externals ''src/sample_docs.json'' = Inr demo_file"
    "JSON_parse demo_externals demo_file = Inr (JArr [JStr ''alpha''])"
    "addDocuments demo_externals demo_retriever
       (reduceDocs demo_externals [] (JArr [JStr ''alpha''])) = Inr ()"
    by (simp_all add: demo_externals_def)
  from indexDocs_fallback [where ext = demo_externals and state = "\<lparr> docs = [] \<rparr>"
      and cfg = demo_config, OF surjective_pairing refl]
  have 1: "fst (indexDocs demo_externals \<lparr> docs = [] \<rparr> (Some demo_config))
       = [ReadFile ''src/sample_docs.json'', JSON_Parse demo_file,
          ReduceDocs [] (JArr [JStr ''alpha'']), MakeRetriever demo_config,
          AddDocuments demo_retriever
            (reduceDocs demo_externals [] (JArr [JStr ''alpha'']))]"
    using r a by simp
  from indexDocs_fallback [where ext = demo_externals and state = "\<lparr> docs = [demo_doc, demo_doc] \<rparr>"
      and cfg = demo_config, OF surjective_pairing refl]
  have 2: "fst (indexDocs demo_externals \<lparr> docs = [demo_doc, demo_doc] \<rparr> (Some demo_config))
       = [MakeRetriever demo_config, AddDocuments demo_retriever [demo_doc, demo_doc]]"
    using r by simp
  from 1 2 r a show ?thesis by simp
qed

lemma runIndexGraph_node:
  assumes "runIndexGraph ext batch config = (tr, res)"
    and "state = \<lparr> docs = (case batch of None \<Rightarrow> []
                               | Some raw \<Rightarrow> reduceDocs ext [] raw) \<rparr>"
    and "received = (case batch of None \<Rightarrow> [] | Some raw \<Rightarrow> [ReduceDocs [] raw])"
  shows "\<exists>trn resn. indexDocs ext state config = (trn, resn) \<and> tr = received @ trn"
proof -
  obtain trn resn where "indexDocs ext state config = (trn, resn)"
    by (cases "indexDocs ext state config")
  moreover from this assms have "tr = received @ trn"
    by (cases resn; cases batch) (auto simp: runIndexGraph_def docsChannel_def Let_def)
  ultimately show ?thesis by blast
qed

text \<open>
  Claim C3. In every run of the index graph, the documents that reach \<open>addDocuments\<close>
  are the result of \<^verbatim>\<open>reduceDocs\<close> on raw records, and that call of \<^verbatim>\<open>reduceDocs\<close> comes
  before the call of \<open>addDocuments\<close>: the raw records are the submitted batch when it
  holds documents, and otherwise the records read and parsed from the fallback file.
\<close>

theorem submitted_documents_are_reduced:
  assumes "runIndexGraph ext batch config = (tr, res)"
    and "AddDocuments r ds \<in> set tr"
  shows "\<exists>raw pre post.
           tr = pre @ ReduceDocs [] raw # post
         \<and> AddDocuments r ds \<in> set post
         \<and> ds = reduceDocs ext [] raw
         \<and> (batch = Some raw \<and> ds \<noteq> []
            \<or> (\<exists>cfg content. config = Some cfg
                  \<and> readFile ext (docsFile (ensureIndexConfiguration ext cfg)) = Inr content
                  \<and> JSON_parse ext content = Inr raw))"
proof -
  define state where "state = \<lparr> docs = (case batch of None \<Rightarrow> []
                               | Some raw \<Rightarrow> reduceDocs ext [] raw) \<rparr>"
  define received where
    "received = (case batch of None \<Rightarrow> [] | Some raw \<Rightarrow> [ReduceDocs [] raw])"
  from runIndexGraph_node [OF assms(1) state_def received_def]
  obtain trn resn where node: "indexDocs ext state config = (trn, resn)"
    and tr: "tr = received @ trn"
    by blast
  have "AddDocuments r ds \<notin> set received"
    by (cases batch) (simp_all add: received_def)
  with assms(2) tr have inn: "AddDocuments r ds \<in> set trn" by simp
  then obtain cfg where cfg: "config = Some cfg"
    using node by (cases config) (simp_all add: indexDocs_def)
  note node' = node [unfolded cfg]
  show ?thesis
  proof (cases "docs state = []")
    case True
    from indexDocs_fallback_trace [OF True node' refl] inn
    obtain content raw where rd: "readFile ext (docsFile (ensureIndexConfiguration ext cfg)) = Inr content"
      and ps: "JSON_parse ext content = Inr raw"
      and trn: "trn = [ReadFile (docsFile (ensureIndexConfiguration ext cfg)), JSON_Parse content,
                       ReduceDocs [] raw, MakeRetriever cfg]
                      @ [AddDocuments r ds]"
      and ds: "ds = reduceDocs ext [] raw"
      by (elim disjE exE conjE) auto
    let ?pre = "received @ [ReadFile (docsFile (ensureIndexConfiguration ext cfg)),
                            JSON_Parse content]"
    let ?post = "[MakeRetriever cfg, AddDocuments r ds]"
    have "tr = ?pre @ ReduceDocs [] raw # ?post" using tr trn by simp
    moreover have "AddDocuments r ds \<in> set ?post" by simp
    ultimately show ?thesis using ds cfg rd ps by blast
  next
    case False
    then obtain raw where b: "batch = Some raw" and st: "docs state = reduceDocs ext [] raw"
      by (cases batch) (simp_all add: state_def)
    from indexDocs_batch [OF False node'] inn
    have trn: "trn = [MakeRetriever cfg, AddDocuments r ds]" and ds: "ds = docs state"
      by auto
    have "tr = [] @ ReduceDocs [] raw # trn" using tr b by (simp add: received_def)
    moreover have "AddDocuments r ds \<in> set trn" using trn by simp
    moreover have "ds = reduceDocs ext [] raw" using ds st by simp
    moreover have "ds \<noteq> []" using ds False by simp
    ultimately show ?thesis using b by blast
  qed
qed

theorem submitted_documents_are_reduced_witness:
  "fst (runIndexGraph demo_externals (Some (JArr [JStr ''beta'', JStr ''beta'']))
            (Some demo_config))
       = [ReduceDocs [] (JArr [JStr ''beta'', JStr ''beta'']), MakeRetriever demo_config,
          AddDocuments demo_retriever [demo_doc, demo_doc]]
   \<and> [demo_doc, demo_doc] = reduceDocs demo_externals [] (JArr [JStr ''beta'', JStr ''beta''])
   \<and> (\<exists>raw pre post.
         fst (runIndexGraph demo_externals (Some (JArr [JStr ''beta'', JStr ''beta'']))
                (Some demo_config)) = pre @ ReduceDocs [] raw # post
       \<and> AddDocuments demo_retriever [demo_doc, demo_doc] \<in> set post
       \<and> [demo_doc, demo_doc] = reduceDocs demo_externals [] raw
       \<and> (Some (JArr [JStr ''beta'', JStr ''beta'']) = Some raw \<and> [demo_doc, demo_doc] \<noteq> []
          \<or> (\<exists>cfg content. Some demo_config = Some cfg
                \<and> readFile demo_externals
                     (docsFile (ensureIndexConfiguration demo_externals cfg)) = Inr content
                \<and> JSON_parse demo_externals content = Inr raw)))
   \<and> fst (runIndexGraph demo_externals None (Some demo_config))
       = [ReadFile ''src/sample_docs.json'', JSON_Parse demo_file,
          ReduceDocs [] (JArr [JStr ''alpha'']), MakeRetriever demo_config,
          AddDocuments demo_retriever [\<lparr> pageContent = ''alpha'', metadata = [] \<rparr>]]
   \<and> readFile demo_externals ''src/sample_docs.json'' = Inr demo_file
   \<and> JSON_parse demo_externals demo_file = Inr (JArr [JStr ''alpha''])
   \<and> [\<lparr> pageContent = ''alpha'', metadata = [] \<rparr>]
       = reduceDocs demo_externals [] (JArr [JStr ''alpha''])"
proof -
  have b: "fst (runIndexGraph demo_externals (Some (JArr [JStr ''beta'', JStr ''beta'']))
            (Some demo_config))
       = [ReduceDocs [] (JArr [JStr ''beta'', JStr ''beta'']), MakeRetriever demo_config,
          AddDocuments demo_retriever [demo_doc, demo_doc]]"
    and f: "fst (runIndexGraph demo_externals None (Some demo_config))
       = [ReadFile ''src/sample_docs.json'', JSON_Parse demo_file,
          ReduceDocs [] (JArr [JStr ''alpha'']), MakeRetriever demo_config,
          AddDocuments demo_retriever [\<lparr> pageContent = ''alpha'', metadata = [] \<rparr>]]"
    by (simp_all add: runIndexGraph_def docsChannel_def demo_defs config_defs retriever_defs
        index_defs)
  have ib: "AddDocuments demo_retriever [demo_doc, demo_doc]
     \<in> set (fst (runIndexGraph demo_externals (Some (JArr [JStr ''beta'', JStr ''beta'']))
                   (Some demo_config)))"
    by (simp add: b)
  have facts: "readFile demo_externals ''src/sample_docs.json'' = Inr demo_file"
    "JSON_parse demo_externals demo_file = Inr (JArr [JStr ''alpha''])"
    "[\<lparr> pageContent = ''alpha'', metadata = [] \<rparr>]
       = reduceDocs demo_externals [] (JArr [JStr ''alpha''])"
    "[demo_doc, demo_doc] = reduceDocs demo_externals [] (JArr [JStr ''beta'', JStr ''beta''])"
    by (simp_all add: demo_externals_def demo_reduceDocs_def demo_doc_def)
  note reduced = submitted_documents_are_reduced [OF surjective_pairing ib]
  show ?thesis
    by (intro conjI; fact b f facts reduced)
qed

section \<open>Properties of the configuration constructors\<close>

lemma or_string_None: "or_string None d = d"
  by (simp add: or_string_def)

lemma or_string_empty: "or_string (Some []) d = d"
  by (simp add: or_string_def)

lemma or_string_set: "s \<noteq> [] \<Longrightarrow> or_string (Some s) d = s"
  by (simp add: or_string_def)

lemma base_fields:
  "embeddingModel (ensureBaseConfiguration config)
     = or_string (embeddingModel_opt (configurableOf config)) ''gemini/gemini-embedding-001''"
  "retrieverProvider (ensureBaseConfiguration config)
     = or_string (retrieverProvider_opt (configurableOf config)) ''elastic-local''"
  "searchKwargs (ensureBaseConfiguration config)
     = or_object (searchKwargs_opt (configurableOf config)) []"
  by (simp_all add: ensureBaseConfiguration_def Let_def)

lemma agent_fields:
  "embeddingModel (ensureAgentConfiguration P config)
     = embeddingModel (ensureBaseConfiguration config)"
  "retrieverProvider (ensureAgentConfiguration P config)
     = retrieverProvider (ensureBaseConfiguration config)"
  "searchKwargs (ensureAgentConfiguration P config)
     = searchKwargs (ensureBaseConfiguration config)"
  "queryModel (ensureAgentConfiguration P config)
     = or_string (queryModel_opt (configurableOf config)) ''gemini/gemini-2.5-flash''"
  "responseModel (ensureAgentConfiguration P config)
     = or_string (responseModel_opt (configurableOf config)) ''gemini/gemini-2.5-flash''"
  "routerSystemPrompt (ensureAgentConfiguration P config)
     = or_string (routerSystemPrompt_opt (configurableOf config)) (ROUTER_SYSTEM_PROMPT P)"
  "moreInfoSystemPrompt (ensureAgentConfiguration P config)
     = or_string (moreInfoSystemPrompt_opt (configurableOf config)) (MORE_INFO_SYSTEM_PROMPT P)"
  "generalSystemPrompt (ensureAgentConfiguration P config)
     = or_string (generalSystemPrompt_opt (configurableOf config)) (GENERAL_SYSTEM_PROMPT P)"
  "researchPlanSystemPrompt (ensureAgentConfiguration P config)
     = or_string (researchPlanSystemPrompt_opt (configurableOf config))
         (RESEARCH_PLAN_SYSTEM_PROMPT P)"
  "generateQueriesSystemPrompt (ensureAgentConfiguration P config)
     = or_string (generateQueriesSystemPrompt_opt (configurableOf config))
         (GENERATE_QUERIES_SYSTEM_PROMPT P)"
  "responseSystemPrompt (ensureAgentConfiguration P config)
     = or_string (responseSystemPrompt_opt (configurableOf config)) (RESPONSE_SYSTEM_PROMPT P)"
  by (simp_all add: ensureAgentConfiguration_def Let_def)

lemma makeRetriever_filter:
  assumes "makeRetriever lib environ cfg = Inr r"
  shows "filter_arg r = searchKwargs (ensureBaseConfiguration (Some cfg))"
proof (cases "makeTextEmbeddings lib (embeddingModel (ensureBaseConfiguration (Some cfg)))")
  case (Inl x)
  then show ?thesis using assms makeRetriever_embeddings_fail [OF Inl, where environ = environ] by simp
next
  case (Inr em)
  show ?thesis
    using assms unfolding makeRetriever_dispatch [OF Inr] Let_def
    by (auto split: if_splits dest: makeElasticRetriever_Inr makePineconeRetriever_Inr
        makeMongoDBRetriever_Inr)
qed

text \<open>
  Claim C9. A recognised string option that the configurable sets to the empty string
  is replaced by its documented default, by \<open>ensureBaseConfiguration\<close> and by
  \<open>ensureAgentConfiguration\<close> alike: the defaulting operator \<^verbatim>\<open>||\<close> tests falsiness,
  and the empty string is falsy.
\<close>

theorem empty_string_option_defaulted:
  assumes "c = configurableOf config"
    and "b = ensureBaseConfiguration config"
    and "a = ensureAgentConfiguration P config"
  shows "(embeddingModel_opt c = Some [] \<longrightarrow>
            embeddingModel b = ''gemini/gemini-embedding-001''
          \<and> embeddingModel a = ''gemini/gemini-embedding-001'')
       \<and> (retrieverProvider_opt c = Some [] \<longrightarrow>
            retrieverProvider b = ''elastic-local'' \<and> retrieverProvider a = ''elastic-local'')
       \<and> (queryModel_opt c = Some [] \<longrightarrow> queryModel a = ''gemini/gemini-2.5-flash'')
       \<and> (responseModel_opt c = Some [] \<longrightarrow> responseModel a = ''gemini/gemini-2.5-flash'')
       \<and> (routerSystemPrompt_opt c = Some [] \<longrightarrow> routerSystemPrompt a = ROUTER_SYSTEM_PROMPT P)
       \<and> (moreInfoSystemPrompt_opt c = Some [] \<longrightarrow>
            moreInfoSystemPrompt a = MORE_INFO_SYSTEM_PROMPT P)
       \<and> (generalSystemPrompt_opt c = Some [] \<longrightarrow>
            generalSystemPrompt a = GENERAL_SYSTEM_PROMPT P)
       \<and> (researchPlanSystemPrompt_opt c = Some [] \<longrightarrow>
            researchPlanSystemPrompt a = RESEARCH_PLAN_SYSTEM_PROMPT P)
       \<and> (generateQueriesSystemPrompt_opt c = Some [] \<longrightarrow>
            generateQueriesSystemPrompt a = GENERATE_QUERIES_SYSTEM_PROMPT P)
       \<and> (responseSystemPrompt_opt c = Some [] \<longrightarrow>
            responseSystemPrompt a = RESPONSE_SYSTEM_PROMPT P)"
  unfolding assms by (simp add: base_fields agent_fields or_string_empty)

theorem empty_string_option_defaulted_witness:
  "embeddingModel_opt (configurableOf (Some demo_config_empty_strings)) = Some []
   \<and> embeddingModel (ensureBaseConfiguration (Some demo_config_empty_strings))
       = ''gemini/gemini-embedding-001''
   \<and> embeddingModel (ensureAgentConfiguration demo_prompts (Some demo_config_empty_strings))
       = ''gemini/gemini-embedding-001''
   \<and> queryModel_opt (configurableOf (Some demo_config_empty_strings)) = Some []
   \<and> queryModel (ensureAgentConfiguration demo_prompts (Some demo_config_empty_strings))
       = ''gemini/gemini-2.5-flash''
   \<and> routerSystemPrompt_opt (configurableOf (Some demo_config_empty_strings)) = Some []
   \<and> routerSystemPrompt (ensureAgentConfiguration demo_prompts (Some demo_config_empty_strings))
       = ''route''"
  using empty_string_option_defaulted [OF refl refl refl,
      of "Some demo_config_empty_strings" demo_prompts]
  by (simp add: configurableOf_def or_object_def demo_config_empty_strings_def
      empty_configurable_def demo_prompts_def)

text \<open>
  Claim C5 says that every option that is set is passed through. An embedding model
  and a router prompt set to the empty string are not: the constructors return the
  defaults in their place.
\<close>

theorem set_option_replaced_counterexample:
  "embeddingModel_opt (configurableOf (Some demo_config_empty_strings)) = Some ''''
   \<and> embeddingModel (ensureBaseConfiguration (Some demo_config_empty_strings)) \<noteq> ''''
   \<and> routerSystemPrompt_opt (configurableOf (Some demo_config_empty_strings)) = Some ''''
   \<and> routerSystemPrompt (ensureAgentConfiguration demo_prompts (Some demo_config_empty_strings))
       \<noteq> ''''"
  by (simp add: base_fields agent_fields or_string_empty configurableOf_def or_object_def
      demo_config_empty_strings_def empty_configurable_def demo_prompts_def)

text \<open>
  Claim C5, amended. Both constructors are total: for every configuration, also a
  missing one, they return a fully populated record. An option that is unset, or set
  to the empty string, gets its documented default; an option set to a non-empty
  string (or, for \<^verbatim>\<open>searchKwargs\<close>, to any object) is passed through; the agent
  configuration carries the three base fields unchanged. Nothing is defaulted later:
  the \<^verbatim>\<open>|| {}\<close> at the point of use in the retriever constructors never fires, the
  filter of every retriever is the \<^verbatim>\<open>searchKwargs\<close> of the ensured configuration.
\<close>

theorem ensureConfiguration_defaults:
  assumes "c = configurableOf config"
    and "b = ensureBaseConfiguration config"
    and "a = ensureAgentConfiguration P config"
  shows "(embeddingModel_opt c = None \<or> embeddingModel_opt c = Some [] \<longrightarrow> embeddingModel b = ''gemini/gemini-embedding-001'')
       \<and> (\<forall>s. embeddingModel_opt c = Some s \<and> s \<noteq> [] \<longrightarrow> embeddingModel b = s)
       \<and> (retrieverProvider_opt c = None \<or> retrieverProvider_opt c = Some [] \<longrightarrow> retrieverProvider b = ''elastic-local'')
       \<and> (\<forall>s. retrieverProvider_opt c = Some s \<and> s \<noteq> [] \<longrightarrow> retrieverProvider b = s)
       \<and> (searchKwargs_opt c = None \<longrightarrow> searchKwargs b = [])
       \<and> (\<forall>k. searchKwargs_opt c = Some k \<longrightarrow> searchKwargs b = k)
       \<and> embeddingModel a = embeddingModel b
       \<and> retrieverProvider a = retrieverProvider b
       \<and> searchKwargs a = searchKwargs b
       \<and> (queryModel_opt c = None \<or> queryModel_opt c = Some [] \<longrightarrow> queryModel a = ''gemini/gemini-2.5-flash'')
       \<and> (\<forall>s. queryModel_opt c = Some s \<and> s \<noteq> [] \<longrightarrow> queryModel a = s)
       \<and> (responseModel_opt c = None \<or> responseModel_opt c = Some [] \<longrightarrow> responseModel a = ''gemini/gemini-2.5-flash'')
       \<and> (\<forall>s. responseModel_opt c = Some s \<and> s \<noteq> [] \<longrightarrow> responseModel a = s)
       \<and> (routerSystemPrompt_opt c = None \<or> routerSystemPrompt_opt c = Some [] \<longrightarrow> routerSystemPrompt a = ROUTER_SYSTEM_PROMPT P)
       \<and> (\<forall>s. routerSystemPrompt_opt c = Some s \<and> s \<noteq> [] \<longrightarrow> routerSystemPrompt a = s)
       \<and> (moreInfoSystemPrompt_opt c = None \<or> moreInfoSystemPrompt_opt c = Some [] \<longrightarrow> moreInfoSystemPrompt a = MORE_INFO_SYSTEM_PROMPT P)
       \<and> (\<forall>s. moreInfoSystemPrompt_opt c = Some s \<and> s \<noteq> [] \<longrightarrow> moreInfoSystemPrompt a = s)
       \<and> (generalSystemPrompt_opt c = None \<or> generalSystemPrompt_opt c = Some [] \<longrightarrow> generalSystemPrompt a = GENERAL_SYSTEM_PROMPT P)
       \<and> (\<forall>s. generalSystemPrompt_opt c = Some s \<and> s \<noteq> [] \<longrightarrow> generalSystemPrompt a = s)
       \<and> (researchPlanSystemPrompt_opt c = None \<or> researchPlanSystemPrompt_opt c = Some [] \<longrightarrow> researchPlanSystemPrompt a = RESEARCH_PLAN_SYSTEM_PROMPT P)
       \<and> (\<forall>s. researchPlanSystemPrompt_opt c = Some s \<and> s \<noteq> [] \<longrightarrow> researchPlanSystemPrompt a = s)
       \<and> (generateQueriesSystemPrompt_opt c = None \<or> generateQueriesSystemPrompt_opt c = Some [] \<longrightarrow> generateQueriesSystemPrompt a = GENERATE_QUERIES_SYSTEM_PROMPT P)
       \<and> (\<forall>s. generateQueriesSystemPrompt_opt c = Some s \<and> s \<noteq> [] \<longrightarrow> generateQueriesSystemPrompt a = s)
       \<and> (responseSystemPrompt_opt c = None \<or> responseSystemPrompt_opt c = Some [] \<longrightarrow> responseSystemPrompt a = RESPONSE_SYSTEM_PROMPT P)
       \<and> (\<forall>s. responseSystemPrompt_opt c = Some s \<and> s \<noteq> [] \<longrightarrow> responseSystemPrompt a = s)
       \<and> (\<forall>lib environ cfg r. config = Some cfg \<and> makeRetriever lib environ cfg = Inr r \<longrightarrow>
            filter_arg r = searchKwargs b)"
  unfolding assms
  apply (intro conjI)
  apply (simp_all add: base_fields agent_fields or_string_None or_string_set or_object_def)
  apply (auto dest!: makeRetriever_filter simp: base_fields or_object_def or_string_empty)
  done

theorem ensureConfiguration_defaults_witness:
  "configurableOf None = empty_configurable
   \<and> embeddingModel (ensureBaseConfiguration None) = ''gemini/gemini-embedding-001''
   \<and> retrieverProvider (ensureBaseConfiguration None) = ''elastic-local''
   \<and> searchKwargs (ensureBaseConfiguration None) = []
   \<and> queryModel (ensureAgentConfiguration demo_prompts None) = ''gemini/gemini-2.5-flash''
   \<and> responseModel (ensureAgentConfiguration demo_prompts None) = ''gemini/gemini-2.5-flash''
   \<and> routerSystemPrompt (ensureAgentConfiguration demo_prompts None) = ''route''
   \<and> moreInfoSystemPrompt (ensureAgentConfiguration demo_prompts None) = ''ask''
   \<and> generalSystemPrompt (ensureAgentConfiguration demo_prompts None) = ''chat''
   \<and> researchPlanSystemPrompt (ensureAgentConfiguration demo_prompts None) = ''plan''
   \<and> generateQueriesSystemPrompt (ensureAgentConfiguration demo_prompts None) = ''queries''
   \<and> responseSystemPrompt (ensureAgentConfiguration demo_prompts None) = ''answer''
   \<and> embeddingModel (ensureBaseConfiguration (Some demo_config_set))
       = ''openai/text-embedding-3-small''
   \<and> retrieverProvider (ensureBaseConfiguration (Some demo_config_set)) = ''mongodb''
   \<and> searchKwargs (ensureBaseConfiguration (Some demo_config_set)) = [(''lang'', JStr ''en'')]
   \<and> responseModel (ensureAgentConfiguration demo_prompts (Some demo_config_set))
       = ''openai/gpt-4o''
   \<and> responseSystemPrompt (ensureAgentConfiguration demo_prompts (Some demo_config_set))
       = ''be brief''
   \<and> queryModel (ensureAgentConfiguration demo_prompts (Some demo_config_set))
       = ''gemini/gemini-2.5-flash''
   \<and> embeddingModel_opt (configurableOf (Some demo_config_empty_strings)) = Some []
   \<and> embeddingModel (ensureBaseConfiguration (Some demo_config_empty_strings))
       = ''gemini/gemini-embedding-001''
   \<and> makeRetriever (installed_library demo_env) demo_env demo_config_set
       = Inr (VectorStoreRetriever demo_store [(''lang'', JStr ''en'')])"
  using ensureConfiguration_defaults [OF refl refl refl, where config = None
      and P = demo_prompts]
    ensureConfiguration_defaults [OF refl refl refl, where config = "Some demo_config_set"
      and P = demo_prompts]
    ensureConfiguration_defaults [OF refl refl refl,
      where config = "Some demo_config_empty_strings" and P = demo_prompts]
  by (simp add: configurableOf_def or_object_def demo_config_set_def empty_configurable_def
      demo_config_empty_strings_def demo_prompts_def demo_env_def demo_store_def
      installed_library_def retriever_defs base_fields or_string_def)

end
